theory Spec2Isabelle
  imports Complex_Main "HOL-Library.Multiset"
begin

section \<open>The entity model of \<^verbatim>\<open>app.py\<close>\<close>

text \<open>
  The five mapped classes of \<^verbatim>\<open>app.py\<close> become records. Field names are the source's;
  where two classes share a column name the later one carries its class as a prefix
  (\<open>product_name\<close>, \<open>account_customer_id\<close>, \<open>order_customer_id\<close>, \<open>line_product_id\<close>).
  Python integers are \<open>int\<close>. A \<^verbatim>\<open>datetime.date\<close> is its proleptic ordinal. The price is a
  finite float that no modelled operation computes with; it is carried as a rational.

  An \<^verbatim>\<open>OrderProduct\<close> row lives in the \<^verbatim>\<open>products\<close> collection of the order that owns it
  (\<^verbatim>\<open>relationship(cascade="all")\<close>), so its \<^verbatim>\<open>order_id\<close> column is the identity of the
  enclosing order and is not repeated in the row.
\<close>

type_synonym date = int

record Customer =
  customer_id :: int
  name :: string
  email :: string
  phone :: string

record CustomerAccount =
  username :: string
  password :: string
  account_customer_id :: int

record OrderProduct =
  line_product_id :: int
  quantity :: int

record Order =
  order_id :: int
  date :: date
  order_customer_id :: int
  order_products :: "OrderProduct list"

record Product =
  product_id :: int
  product_name :: string
  price :: rat
  stock :: int

text \<open>
  The database is one list of rows per table. \<^verbatim>\<open>session.get(Class, id)\<close> is the first row
  with that primary key; an \<^verbatim>\<open>UPDATE\<close> or \<^verbatim>\<open>DELETE\<close> the session emits for an object acts
  on the rows with the object's primary key.

  Every route runs in one \<^verbatim>\<open>with Session(db.engine) as session, session.begin()\<close> block:
  what it writes is committed when the block is left by \<^verbatim>\<open>return\<close>, and discarded when
  the route has called \<^verbatim>\<open>session.rollback()\<close> or an exception leaves the block. A route is
  therefore a function from the database it finds to its response and the database it
  leaves. The store refuses a write that breaks a primary key (a second row with a key in
  use) or one of the foreign keys the classes declare (a row that names a customer, an order
  or a product with no row); the session then raises \<^verbatim>\<open>IntegrityError\<close>, which no route
  catches. These refusals are modelled wherever a route writes a key without having looked
  it up: the \<^verbatim>\<open>setattr\<close> loops of \<^verbatim>\<open>update_order\<close> and \<^verbatim>\<open>update_product\<close> and the keys a
  body supplies to the \<^verbatim>\<open>add_\<close> routes. The check \<^verbatim>\<open>stock >= 0\<close> of the column is not
  modelled: that no route writes a negative stock is proved of the routes themselves. One
  request runs at a time.
\<close>

record db =
  Customers :: "Customer list"
  Customer_Accounts :: "CustomerAccount list"
  Products :: "Product list"
  Orders :: "Order list"

definition get_Customer :: "db \<Rightarrow> int \<Rightarrow> Customer option" where
  "get_Customer s i = find (\<lambda>c. customer_id c = i) (Customers s)"

definition get_CustomerAccount :: "db \<Rightarrow> int \<Rightarrow> CustomerAccount option" where
  "get_CustomerAccount s i = find (\<lambda>a. account_customer_id a = i) (Customer_Accounts s)"

definition get_Product :: "db \<Rightarrow> int \<Rightarrow> Product option" where
  "get_Product s i = find (\<lambda>p. product_id p = i) (Products s)"

definition get_Order :: "db \<Rightarrow> int \<Rightarrow> Order option" where
  "get_Order s i = find (\<lambda>order. order_id order = i) (Orders s)"

text \<open>
  Every route answers with a JSON body and a status code. A failure is one constructor per
  error body of the source; the three last ones are the exceptions the routes do not catch
  (the \<^verbatim>\<open>with session.begin()\<close> block rolls back and the framework answers 500).
\<close>

datatype error =
    ValidationError
  | CustomerDoesNotExist int
  | ProductDoesNotExist int
  | InsufficientSupply int
  | OrderNotFound
  | CustomerMustExist
  | OnlyOneAccount
  | UsernamesMustBeUnique
  | ProductNotFound
  | ProductHasOrders
  | RestockPositiveOnly
  | KeyError
  | AttributeError
  | IntegrityError

datatype response = Success | Failure error

fun status_code :: "error \<Rightarrow> nat" where
  "status_code ValidationError = 400"
| "status_code (CustomerDoesNotExist _) = 404"
| "status_code (ProductDoesNotExist _) = 404"
| "status_code (InsufficientSupply _) = 400"
| "status_code OrderNotFound = 404"
| "status_code CustomerMustExist = 404"
| "status_code OnlyOneAccount = 400"
| "status_code UsernamesMustBeUnique = 400"
| "status_code ProductNotFound = 404"
| "status_code ProductHasOrders = 400"
| "status_code RestockPositiveOnly = 400"
| "status_code KeyError = 500"
| "status_code AttributeError = 500"
| "status_code IntegrityError = 500"

section \<open>Allocations: \<^verbatim>\<open>Counter(product_ids)\<close> and \<^verbatim>\<open>set(product_ids)\<close>\<close>

text \<open>
  \<^verbatim>\<open>Counter(iterable)\<close> runs \<^verbatim>\<open>self[elem] = self.get(elem, 0) + 1\<close> over the elements in
  order, starting from the empty dictionary; \<^verbatim>\<open>quantities[product_id]\<close> reads a key and
  gives 0 for a missing one.
\<close>

definition Counter_add :: "int \<Rightarrow> (int \<rightharpoonup> int) \<Rightarrow> (int \<rightharpoonup> int)" where
  "Counter_add elem c = c(elem \<mapsto> (case c elem of None \<Rightarrow> 0 | Some n \<Rightarrow> n) + 1)"

definition Counter :: "int list \<Rightarrow> (int \<rightharpoonup> int)" where
  "Counter product_ids = fold Counter_add product_ids Map.empty"

definition Counter_getitem :: "(int \<rightharpoonup> int) \<Rightarrow> int \<Rightarrow> int" where
  "Counter_getitem c k = (case c k of None \<Rightarrow> 0 | Some n \<Rightarrow> n)"

text \<open>
  The order in which \<^verbatim>\<open>for product_id in set(product_ids)\<close> visits the ids is the
  interpreter's. The operations take it as a parameter \<open>set_iter\<close>, of which only this is
  known: it lists every id of the request once.
\<close>

definition set_order :: "(int list \<Rightarrow> int list) \<Rightarrow> bool" where
  "set_order set_iter \<longleftrightarrow> (\<forall>xs. distinct (set_iter xs) \<and> set (set_iter xs) = set xs)"

section \<open>The stock loops of the order routes\<close>

definition set_stock :: "int \<Rightarrow> int \<Rightarrow> db \<Rightarrow> db" where
  "set_stock pid v s =
     s\<lparr>Products := map (\<lambda>p. if product_id p = pid then p\<lparr>stock := v\<rparr> else p) (Products s)\<rparr>"

definition append_line :: "int \<Rightarrow> OrderProduct \<Rightarrow> db \<Rightarrow> db" where
  "append_line oid l s =
     s\<lparr>Orders := map (\<lambda>order. if order_id order = oid
                                then order\<lparr>order_products := order_products order @ [l]\<rparr>
                                else order) (Orders s)\<rparr>"

definition delete_lines :: "int \<Rightarrow> db \<Rightarrow> db" where
  "delete_lines oid s =
     s\<lparr>Orders := map (\<lambda>order. if order_id order = oid
                                then order\<lparr>order_products := []\<rparr>
                                else order) (Orders s)\<rparr>"

text \<open>
  The loop of lines 397-409 of \<^verbatim>\<open>add_order\<close>, repeated at lines 428-440 of
  \<^verbatim>\<open>update_order\<close>, over the ids still to visit. \<open>oid\<close> is the order the new lines are
  appended to. An \<open>Inl\<close> is the point where the source calls \<^verbatim>\<open>session.rollback()\<close> and
  returns.
\<close>

fun reserve :: "int \<Rightarrow> (int \<rightharpoonup> int) \<Rightarrow> int list \<Rightarrow> db \<Rightarrow> error + db" where
  "reserve oid quantities [] s = Inr s"
| "reserve oid quantities (pid # rest) s =
     (case get_Product s pid of
        None \<Rightarrow> Inl (ProductDoesNotExist pid)
      | Some product \<Rightarrow>
          let q = Counter_getitem quantities pid in
          if stock product < q then Inl (InsufficientSupply pid)
          else reserve oid quantities rest
                 (append_line oid \<lparr>line_product_id = pid, quantity = q\<rparr>
                    (set_stock pid (stock product - q) s)))"

text \<open>
  The loop \<^verbatim>\<open>for orderproduct in order.products: orderproduct.product.stock +=
  orderproduct.quantity\<close> of \<^verbatim>\<open>update_order\<close> and \<^verbatim>\<open>delete_order\<close>. A line whose product
  row is gone has \<^verbatim>\<open>orderproduct.product\<close> equal to \<^verbatim>\<open>None\<close>, and reading \<^verbatim>\<open>.stock\<close> raises.
\<close>

fun release :: "OrderProduct list \<Rightarrow> db \<Rightarrow> error + db" where
  "release [] s = Inr s"
| "release (orderproduct # rest) s =
     (case get_Product s (line_product_id orderproduct) of
        None \<Rightarrow> Inl AttributeError
      | Some product \<Rightarrow>
          release rest
            (set_stock (line_product_id orderproduct) (stock product + quantity orderproduct) s))"

section \<open>The order routes\<close>

text \<open>
  A request body after \<^verbatim>\<open>order_schema.load\<close>: a dictionary in which every key may be
  missing. \<^verbatim>\<open>load\<close> without \<^verbatim>\<open>partial=True\<close> rejects a body without \<^verbatim>\<open>customer_id\<close> or
  \<^verbatim>\<open>date\<close>.
\<close>

record order_data =
  od_order_id :: "int option"
  od_customer_id :: "int option"
  od_date :: "date option"
  od_product_ids :: "int list option"

text \<open>
  \<^verbatim>\<open>add_order\<close>. \<open>auto_id\<close> is the key the store's autoincrement gives the new row when
  the body has no \<^verbatim>\<open>order_id\<close>. The store refuses a second row with a key in use. Each
  result pairs the response with the database the request leaves behind: \<open>db\<close> itself
  wherever the unit of work is rolled back or has written nothing.
\<close>

definition add_order ::
  "(int list \<Rightarrow> int list) \<Rightarrow> int \<Rightarrow> order_data \<Rightarrow> db \<Rightarrow> response \<times> db" where
  "add_order set_iter auto_id data db =
     (case (od_customer_id data, od_date data) of
        (Some cid, Some d) \<Rightarrow>
          (case get_Customer db cid of
             None \<Rightarrow> (Failure (CustomerDoesNotExist cid), db)
           | Some customer \<Rightarrow>
               (case od_product_ids data of
                  None \<Rightarrow> (Failure KeyError, db)
                | Some product_ids \<Rightarrow>
                    let oid = (case od_order_id data of Some i \<Rightarrow> i | None \<Rightarrow> auto_id);
                        order = \<lparr>order_id = oid, date = d, order_customer_id = cid,
                                 order_products = []\<rparr>
                    in if get_Order db oid \<noteq> None then (Failure IntegrityError, db)
                       else (case reserve oid (Counter product_ids) (set_iter product_ids)
                                     (db\<lparr>Orders := Orders db @ [order]\<rparr>) of
                               Inl e \<Rightarrow> (Failure e, db)
                             | Inr s \<Rightarrow> (Success, s))))
      | _ \<Rightarrow> (Failure ValidationError, db))"

text \<open>
  The loop \<^verbatim>\<open>for field, value in order_data.items(): setattr(order, field, value)\<close> of
  \<^verbatim>\<open>update_order\<close>, after \<^verbatim>\<open>product_ids\<close> has been popped.
\<close>

definition setattr_order :: "order_data \<Rightarrow> Order \<Rightarrow> Order" where
  "setattr_order data order =
     (let o1 = (case od_order_id data of None \<Rightarrow> order | Some i \<Rightarrow> order\<lparr>order_id := i\<rparr>);
          o2 = (case od_customer_id data of None \<Rightarrow> o1 | Some c \<Rightarrow> o1\<lparr>order_customer_id := c\<rparr>);
          o3 = (case od_date data of None \<Rightarrow> o2 | Some d \<Rightarrow> o2\<lparr>date := d\<rparr>)
      in o3)"

text \<open>
  The rows of \<^verbatim>\<open>Order_Product\<close> under the key of an order, and whether the customer a body
  names has a row.
\<close>

definition lines_of_order :: "db \<Rightarrow> int \<Rightarrow> OrderProduct list" where
  "lines_of_order s oid =
     concat (map order_products (filter (\<lambda>r. order_id r = oid) (Orders s)))"

definition customer_named :: "order_data \<Rightarrow> db \<Rightarrow> bool" where
  "customer_named data s \<longleftrightarrow>
     (case od_customer_id data of None \<Rightarrow> True | Some c \<Rightarrow> get_Customer s c \<noteq> None)"

text \<open>
  What the store refuses when \<^verbatim>\<open>update_order\<close> commits the fields \<^verbatim>\<open>setattr\<close> has written:
  a \<^verbatim>\<open>customer_id\<close> that names no customer (the foreign key of \<^verbatim>\<open>Orders.customer_id\<close>),
  and a new \<^verbatim>\<open>order_id\<close> that is the key of another order or leaves behind lines that
  name the old key (the foreign key of \<^verbatim>\<open>Order_Product.order_id\<close>). \<open>db\<close> is the database
  the request found and \<open>s\<close> the one after the loops.

  Without \<^verbatim>\<open>product_ids\<close> the lines under the old key are the order's. With
  \<^verbatim>\<open>product_ids\<close>, whether the store still holds a line under the old key when the order
  is renamed (an old line whose delete, or a new line whose insert, the session has or has
  not yet flushed) is decided by the session and not by \<^verbatim>\<open>app.py\<close>: it is the argument
  \<open>stale_lines\<close>. It plays no part when the body has no \<^verbatim>\<open>order_id\<close>, or one equal to the
  order's, or when the order has no line before or after.
\<close>

definition update_refused :: "bool \<Rightarrow> int \<Rightarrow> order_data \<Rightarrow> db \<Rightarrow> db \<Rightarrow> bool" where
  "update_refused stale_lines oid data db s \<longleftrightarrow>
     \<not> customer_named data s \<or>
     (case od_order_id data of
        None \<Rightarrow> False
      | Some i \<Rightarrow>
          i \<noteq> oid \<and>
          (get_Order s i \<noteq> None \<or>
           (case od_product_ids data of
              None \<Rightarrow> lines_of_order db oid \<noteq> []
            | Some product_ids \<Rightarrow>
                stale_lines \<and> (lines_of_order db oid \<noteq> [] \<or> lines_of_order s oid \<noteq> []))))"

definition update_order ::
  "(int list \<Rightarrow> int list) \<Rightarrow> bool \<Rightarrow> int \<Rightarrow> order_data \<Rightarrow> db \<Rightarrow> response \<times> db" where
  "update_order set_iter stale_lines oid data db =
     (case get_Order db oid of
        None \<Rightarrow> (Failure OrderNotFound, db)
      | Some order \<Rightarrow>
          (case (case od_product_ids data of
                   None \<Rightarrow> Inr db
                 | Some product_ids \<Rightarrow>
                     (case release (order_products order) db of
                        Inl e \<Rightarrow> Inl e
                      | Inr s \<Rightarrow> reserve oid (Counter product_ids) (set_iter product_ids)
                                   (delete_lines oid s))) of
             Inl e \<Rightarrow> (Failure e, db)
           | Inr s \<Rightarrow>
               if update_refused stale_lines oid data db s then (Failure IntegrityError, db)
               else (Success, s\<lparr>Orders := map (\<lambda>r. if order_id r = oid
                                                    then setattr_order data r else r)
                                             (Orders s)\<rparr>)))"

definition delete_order :: "int \<Rightarrow> db \<Rightarrow> response \<times> db" where
  "delete_order oid db =
     (case get_Order db oid of
        None \<Rightarrow> (Failure OrderNotFound, db)
      | Some order \<Rightarrow>
          (case release (order_products order) db of
             Inl e \<Rightarrow> (Failure e, db)
           | Inr s \<Rightarrow> (Success, s\<lparr>Orders := filter (\<lambda>r. order_id r \<noteq> oid) (Orders s)\<rparr>)))"

section \<open>Accounts and products\<close>

text \<open>
  \<^verbatim>\<open>add_customer_account\<close>. The body after \<^verbatim>\<open>customer_account_schema.load\<close> has all three
  keys (each is required), so it is a \<open>CustomerAccount\<close> row.
\<close>

definition add_customer_account :: "CustomerAccount \<Rightarrow> db \<Rightarrow> response \<times> db" where
  "add_customer_account data db =
     (case get_Customer db (account_customer_id data) of
        None \<Rightarrow> (Failure CustomerMustExist, db)
      | Some customer \<Rightarrow>
          (case get_CustomerAccount db (account_customer_id data) of
             Some account \<Rightarrow> (Failure OnlyOneAccount, db)
           | None \<Rightarrow>
               let duplicate = filter (\<lambda>a. username a = username data) (Customer_Accounts db)
               in if duplicate \<noteq> [] then (Failure UsernamesMustBeUnique, db)
                  else (Success, db\<lparr>Customer_Accounts := Customer_Accounts db @ [data]\<rparr>)))"

text \<open>
  \<^verbatim>\<open>delete_product\<close>. \<^verbatim>\<open>select(OrderProduct).filter_by(product_id=product_id)\<close> reads the
  lines of every order.
\<close>

definition lines_of_product :: "db \<Rightarrow> int \<Rightarrow> OrderProduct list" where
  "lines_of_product s pid =
     filter (\<lambda>l. line_product_id l = pid) (concat (map order_products (Orders s)))"

definition delete_product :: "int \<Rightarrow> db \<Rightarrow> response \<times> db" where
  "delete_product pid db =
     (case get_Product db pid of
        None \<Rightarrow> (Failure ProductNotFound, db)
      | Some product \<Rightarrow>
          let orders = lines_of_product db pid
          in if orders \<noteq> [] then (Failure ProductHasOrders, db)
             else (Success, db\<lparr>Products := filter (\<lambda>p. product_id p \<noteq> pid) (Products db)\<rparr>))"

text \<open>
  A product body after \<^verbatim>\<open>product_schema.load\<close>, every key optional, and the validators of
  \<^verbatim>\<open>ProductSchema\<close>: a name of 1 to 255 characters, a price and a stock that are not
  negative.
\<close>

record product_data =
  pd_product_id :: "int option"
  pd_name :: "string option"
  pd_price :: "rat option"
  pd_stock :: "int option"

definition product_data_valid :: "product_data \<Rightarrow> bool" where
  "product_data_valid data \<longleftrightarrow>
     (case pd_name data of None \<Rightarrow> True | Some n \<Rightarrow> 1 \<le> length n \<and> length n \<le> 255) \<and>
     (case pd_price data of None \<Rightarrow> True | Some x \<Rightarrow> 0 \<le> x) \<and>
     (case pd_stock data of None \<Rightarrow> True | Some k \<Rightarrow> 0 \<le> k)"

text \<open>
  \<^verbatim>\<open>add_product\<close> (one product). \<^verbatim>\<open>name\<close> and \<^verbatim>\<open>price\<close> are required; a missing
  \<^verbatim>\<open>stock\<close> takes the column default 1, a missing \<^verbatim>\<open>product_id\<close> the autoincrement key.
\<close>

definition add_product :: "int \<Rightarrow> product_data \<Rightarrow> db \<Rightarrow> response \<times> db" where
  "add_product auto_id data db =
     (case (pd_name data, pd_price data) of
        (Some n, Some x) \<Rightarrow>
          if \<not> product_data_valid data then (Failure ValidationError, db)
          else
            let pid = (case pd_product_id data of Some i \<Rightarrow> i | None \<Rightarrow> auto_id);
                product = \<lparr>product_id = pid, product_name = n, price = x,
                           stock = (case pd_stock data of Some k \<Rightarrow> k | None \<Rightarrow> 1)\<rparr>
            in if get_Product db pid \<noteq> None then (Failure IntegrityError, db)
               else (Success, db\<lparr>Products := Products db @ [product]\<rparr>)
      | _ \<Rightarrow> (Failure ValidationError, db))"

definition setattr_product :: "product_data \<Rightarrow> Product \<Rightarrow> Product" where
  "setattr_product data product =
     (let p1 = (case pd_product_id data of None \<Rightarrow> product | Some i \<Rightarrow> product\<lparr>product_id := i\<rparr>);
          p2 = (case pd_name data of None \<Rightarrow> p1 | Some n \<Rightarrow> p1\<lparr>product_name := n\<rparr>);
          p3 = (case pd_price data of None \<Rightarrow> p2 | Some x \<Rightarrow> p2\<lparr>price := x\<rparr>);
          p4 = (case pd_stock data of None \<Rightarrow> p3 | Some k \<Rightarrow> p3\<lparr>stock := k\<rparr>)
      in p4)"

text \<open>
  \<^verbatim>\<open>update_product\<close>. \<open>restock\<close> is the query argument \<^verbatim>\<open>restock\<close> read as a number
  (\<open>None\<close> when it is absent or empty); an argument that is not a string of digits is
  refused like a number that is not positive. A new \<^verbatim>\<open>product_id\<close> is refused by the
  store when it is the key of another product or when a line names the old key (the
  foreign key of \<^verbatim>\<open>Order_Product.product_id\<close>).
\<close>

definition update_product :: "int \<Rightarrow> int option \<Rightarrow> product_data \<Rightarrow> db \<Rightarrow> response \<times> db" where
  "update_product pid restock data db =
     (case restock of
        Some n \<Rightarrow>
          if n \<le> 0 then (Failure RestockPositiveOnly, db)
          else (case get_Product db pid of
                  None \<Rightarrow> (Failure ProductNotFound, db)
                | Some product \<Rightarrow> (Success, set_stock pid (stock product + n) db))
      | None \<Rightarrow>
          (case get_Product db pid of
             None \<Rightarrow> (Failure ProductNotFound, db)
           | Some product \<Rightarrow>
               if \<not> product_data_valid data then (Failure ValidationError, db)
               else if (case pd_product_id data of
                          None \<Rightarrow> False
                        | Some i \<Rightarrow> i \<noteq> pid \<and>
                                    (get_Product db i \<noteq> None \<or> lines_of_product db pid \<noteq> []))
               then (Failure IntegrityError, db)
               else (Success, db\<lparr>Products := map (\<lambda>p. if product_id p = pid
                                                      then setattr_product data p else p)
                                               (Products db)\<rparr>)))"

text \<open>\<^verbatim>\<open>add_customer\<close> (one customer): the body's row, keyed by the body or the store.\<close>

definition add_customer :: "int \<Rightarrow> int option \<Rightarrow> string \<Rightarrow> string \<Rightarrow> string \<Rightarrow> db \<Rightarrow> response \<times> db" where
  "add_customer auto_id given_id n e p db =
     (let cid = (case given_id of Some i \<Rightarrow> i | None \<Rightarrow> auto_id);
          customer = \<lparr>customer_id = cid, name = n, email = e, phone = p\<rparr>
      in if get_Customer db cid \<noteq> None then (Failure IntegrityError, db)
         else (Success, db\<lparr>Customers := Customers db @ [customer]\<rparr>))"

section \<open>What an order holds of a product\<close>

text \<open>
  The quantity an order's lines hold of one product: the sum over the lines of that product
  (one line at most, where the key of \<^verbatim>\<open>Order_Product\<close> is respected).
\<close>

definition held :: "OrderProduct list \<Rightarrow> int \<Rightarrow> int" where
  "held ls pid = sum_list (map quantity (filter (\<lambda>l. line_product_id l = pid) ls))"

section \<open>A small shop\<close>

text \<open>
  Two customers (7, who has an account, and 9, who has none), three products A, B and C
  (ids 1, 2, 3) and one order (10) that holds two of A and one of B, for the worked examples.
\<close>

definition shop :: db where
  "shop = \<lparr>Customers = [\<lparr>customer_id = 7, name = ''Ada'', email = ''ada@example.org'',
                          phone = ''555''\<rparr>,
                        \<lparr>customer_id = 9, name = ''Bob'', email = ''bob@example.org'',
                          phone = ''556''\<rparr>],
           Customer_Accounts = [\<lparr>username = ''ada'', password = ''pw'', account_customer_id = 7\<rparr>],
           Products = [\<lparr>product_id = 1, product_name = ''A'', price = 1, stock = 0\<rparr>,
                       \<lparr>product_id = 2, product_name = ''B'', price = 2, stock = 4\<rparr>,
                       \<lparr>product_id = 3, product_name = ''C'', price = 3, stock = 3\<rparr>],
           Orders = [\<lparr>order_id = 10, date = 738000, order_customer_id = 7,
                      order_products = [\<lparr>line_product_id = 1, quantity = 2\<rparr>,
                                        \<lparr>line_product_id = 2, quantity = 1\<rparr>]\<rparr>]\<rparr>"

definition request :: "int \<Rightarrow> int list \<Rightarrow> order_data" where
  "request cid product_ids =
     \<lparr>od_order_id = None, od_customer_id = Some cid, od_date = Some 738001,
      od_product_ids = Some product_ids\<rparr>"

definition replace_request :: "int list \<Rightarrow> order_data" where
  "replace_request product_ids =
     \<lparr>od_order_id = None, od_customer_id = None, od_date = None,
      od_product_ids = Some product_ids\<rparr>"

text \<open>
  The two facts the stock invariant rests on: no product has a negative stock, and no line
  of an order has a negative quantity.
\<close>

definition stock_nonneg :: "db \<Rightarrow> bool" where
  "stock_nonneg s \<longleftrightarrow> list_all (\<lambda>p. 0 \<le> stock p) (Products s)"

definition lines_nonneg :: "db \<Rightarrow> bool" where
  "lines_nonneg s \<longleftrightarrow>
     list_all (\<lambda>r. list_all (\<lambda>l. 0 \<le> quantity l) (order_products r)) (Orders s)"

definition empty_db :: db where
  "empty_db = \<lparr>Customers = [], Customer_Accounts = [], Products = [], Orders = []\<rparr>"

text \<open>
  The databases the modelled routes can produce from the empty one, whatever their
  arguments and whether they succeed or fail. The routes left out (bulk inserts, and the
  updates and deletes of customers and accounts) write neither a stock nor a line.
\<close>

inductive reachable :: "(int list \<Rightarrow> int list) \<Rightarrow> db \<Rightarrow> bool"
  for set_iter :: "int list \<Rightarrow> int list" where
  r_empty: "reachable set_iter empty_db"
| r_add_customer:
    "reachable set_iter s \<Longrightarrow> reachable set_iter (snd (add_customer auto_id given_id n e p s))"
| r_add_customer_account:
    "reachable set_iter s \<Longrightarrow> reachable set_iter (snd (add_customer_account account s))"
| r_add_product:
    "reachable set_iter s \<Longrightarrow> reachable set_iter (snd (add_product auto_id pdata s))"
| r_update_product:
    "reachable set_iter s \<Longrightarrow> reachable set_iter (snd (update_product pid restock pdata s))"
| r_delete_product:
    "reachable set_iter s \<Longrightarrow> reachable set_iter (snd (delete_product pid s))"
| r_add_order:
    "reachable set_iter s \<Longrightarrow> reachable set_iter (snd (add_order set_iter auto_id data s))"
| r_update_order:
    "reachable set_iter s \<Longrightarrow>
     reachable set_iter (snd (update_order set_iter stale_lines oid data s))"
| r_delete_order:
    "reachable set_iter s \<Longrightarrow> reachable set_iter (snd (delete_order oid s))"

section \<open>The allocation is the count of each id\<close>

lemma Counter_add_count:
  "(\<forall>k. c k = (if k \<in> set ys then Some (int (count_list ys k)) else None)) \<Longrightarrow>
   fold Counter_add xs c k = (if k \<in> set (ys @ xs) then Some (int (count_list (ys @ xs) k)) else None)"
proof (induction xs arbitrary: c ys)
  case Nil
  then show ?case by simp
next
  case (Cons x xs)
  have step: "\<forall>k. Counter_add x c k =
      (if k \<in> set (ys @ [x]) then Some (int (count_list (ys @ [x]) k)) else None)"
    using Cons.prems by (simp add: Counter_add_def count_list_0_iff)
  show ?case
    using Cons.IH [OF step] by simp
qed

lemma Counter_count:
  "Counter xs k = (if k \<in> set xs then Some (int (count_list xs k)) else None)"
  unfolding Counter_def using Counter_add_count [of Map.empty "[]" xs k] by simp

lemma Counter_getitem_count: "Counter_getitem (Counter xs) k = int (count_list xs k)"
  by (simp add: Counter_getitem_def Counter_count count_list_0_iff)

lemma Counter_mset: "mset ys = mset xs \<Longrightarrow> Counter ys = Counter xs"
proof
  fix k
  assume h: "mset ys = mset xs"
  then have "set ys = set xs" by (rule mset_eq_setD)
  moreover have "count_list ys k = count_list xs k"
    using h count_mset [of ys k] count_mset [of xs k] by simp
  ultimately show "Counter ys k = Counter xs k" by (simp add: Counter_count)
qed


text \<open>
  C5. For every sequence of product references, \<^verbatim>\<open>Counter(product_ids)\<close> holds, for each
  id, the number of times the id occurs in the sequence (and no key for an id that does not
  occur, which \<^verbatim>\<open>quantities[product_id]\<close> reads as 0); a reordering of the sequence gives
  the same dictionary.
\<close>

theorem Counter_counts_occurrences:
  "(\<forall>k. Counter product_ids k =
         (if k \<in> set product_ids then Some (int (count_list product_ids k)) else None)) \<and>
   (\<forall>k. Counter_getitem (Counter product_ids) k = int (count_list product_ids k)) \<and>
   (\<forall>reordered. mset reordered = mset product_ids \<longrightarrow> Counter reordered = Counter product_ids)"
proof (intro conjI allI impI)
  fix k
  show "Counter product_ids k =
        (if k \<in> set product_ids then Some (int (count_list product_ids k)) else None)"
    by (rule Counter_count)
  show "Counter_getitem (Counter product_ids) k = int (count_list product_ids k)"
    by (rule Counter_getitem_count)
next
  fix reordered
  assume "mset reordered = mset product_ids"
  then show "Counter reordered = Counter product_ids" by (rule Counter_mset)
qed

theorem Counter_counts_occurrences_witness:
  "Counter [3, 1, 3] 3 = Some 2 \<and> Counter [3, 1, 3] 1 = Some 1 \<and> Counter [3, 1, 3] 2 = None \<and>
   Counter_getitem (Counter [3, 1, 3]) 2 = 0 \<and>
   mset [1, 3, 3] = mset [3, 1, 3 :: int] \<and> Counter [1, 3, 3] = Counter [3, 1, 3]"
proof -
  note t = Counter_counts_occurrences [of "[3, 1, 3]"]
  note t1 = t [THEN conjunct1, rule_format]
  note t2 = t [THEN conjunct2, THEN conjunct1, rule_format]
  note t3 = t [THEN conjunct2, THEN conjunct2, rule_format]
  have m: "mset [1, 3, 3] = mset [3, 1, 3 :: int]" by simp
  have a: "Counter [3, 1, 3] 3 = Some 2" using t1 [of 3] by simp
  have a': "Counter [3, 1, 3] 1 = Some 1" using t1 [of 1] by simp
  have a'': "Counter [3, 1, 3] 2 = None" using t1 [of 2] by simp
  have b: "Counter_getitem (Counter [3, 1, 3]) 2 = 0" using t2 [of 2] by simp
  have c: "Counter [1, 3, 3] = Counter [3, 1, 3]" using t3 [OF m] .
  from a a' a'' b c m show ?thesis by blast
qed

section \<open>Reading a table after a write\<close>

lemma find_map_update:
  assumes "\<And>x. key (f x) = key x"
  shows "find (\<lambda>x. key x = j) (map (\<lambda>x. if key x = i then f x else x) xs) =
         (if j = i then map_option f (find (\<lambda>x. key x = i) xs) else find (\<lambda>x. key x = j) xs)"
  using assms by (induction xs) auto

lemma get_Product_set_stock:
  "get_Product (set_stock i v s) j =
     (if j = i then map_option (\<lambda>p. p\<lparr>stock := v\<rparr>) (get_Product s i) else get_Product s j)"
  unfolding get_Product_def set_stock_def
  using find_map_update [of product_id "\<lambda>p. p\<lparr>stock := v\<rparr>" j i "Products s"] by simp

lemma set_stock_frame [simp]:
  "Customers (set_stock i v s) = Customers s"
  "Customer_Accounts (set_stock i v s) = Customer_Accounts s"
  "Orders (set_stock i v s) = Orders s"
  "map product_id (Products (set_stock i v s)) = map product_id (Products s)"
  by (simp_all add: set_stock_def comp_def)

lemma append_line_frame [simp]:
  "Customers (append_line oid l s) = Customers s"
  "Customer_Accounts (append_line oid l s) = Customer_Accounts s"
  "Products (append_line oid l s) = Products s"
  "get_Product (append_line oid l s) j = get_Product s j"
  by (simp_all add: append_line_def get_Product_def)

lemma delete_lines_frame [simp]:
  "Customers (delete_lines oid s) = Customers s"
  "Customer_Accounts (delete_lines oid s) = Customer_Accounts s"
  "Products (delete_lines oid s) = Products s"
  "get_Product (delete_lines oid s) j = get_Product s j"
  by (simp_all add: delete_lines_def get_Product_def)

section \<open>The reservation loop\<close>

lemma reserve_frame:
  "reserve oid q ks s = Inr s' \<Longrightarrow>
   Customers s' = Customers s \<and> Customer_Accounts s' = Customer_Accounts s \<and>
   map product_id (Products s') = map product_id (Products s)"
proof (induction ks arbitrary: s)
  case Nil
  then show ?case by simp
next
  case (Cons k ks)
  then show ?case
    by (fastforce simp: Let_def split: option.splits if_splits)
qed

lemma reserve_Orders:
  "reserve oid q ks s = Inr s' \<Longrightarrow>
   Orders s' = map (\<lambda>r. if order_id r = oid
                          then r\<lparr>order_products := order_products r @
                                  map (\<lambda>k. \<lparr>line_product_id = k, quantity = Counter_getitem q k\<rparr>) ks\<rparr>
                          else r) (Orders s)"
proof (induction ks arbitrary: s)
  case Nil
  then show ?case by (simp add: map_idI)
next
  case (Cons k ks)
  from Cons.prems obtain product where
    p: "get_Product s k = Some product" "\<not> stock product < Counter_getitem q k"
    and r: "reserve oid q ks
              (append_line oid \<lparr>line_product_id = k, quantity = Counter_getitem q k\<rparr>
                 (set_stock k (stock product - Counter_getitem q k) s)) = Inr s'"
    by (auto simp: Let_def split: option.splits if_splits)
  show ?case
    unfolding Cons.IH [OF r] by (simp add: append_line_def)
qed

lemma reserve_Products:
  "distinct ks \<Longrightarrow> reserve oid q ks s = Inr s' \<Longrightarrow>
   get_Product s' j =
     (if j \<in> set ks
      then map_option (\<lambda>p. p\<lparr>stock := stock p - Counter_getitem q j\<rparr>) (get_Product s j)
      else get_Product s j)"
proof (induction ks arbitrary: s)
  case Nil
  then show ?case by simp
next
  case (Cons k ks)
  from Cons.prems obtain product where
    p: "get_Product s k = Some product" "\<not> stock product < Counter_getitem q k"
    and r: "reserve oid q ks
              (append_line oid \<lparr>line_product_id = k, quantity = Counter_getitem q k\<rparr>
                 (set_stock k (stock product - Counter_getitem q k) s)) = Inr s'"
    by (auto simp: Let_def split: option.splits if_splits)
  from Cons.prems have d: "distinct ks" "k \<notin> set ks" by simp_all
  show ?case
    unfolding Cons.IH [OF d(1) r] using d(2) p(1)
    by (auto simp: get_Product_set_stock)
qed

lemma reserve_Inr_available:
  "distinct ks \<Longrightarrow> reserve oid q ks s = Inr s' \<Longrightarrow> k \<in> set ks \<Longrightarrow>
   \<exists>p. get_Product s k = Some p \<and> Counter_getitem q k \<le> stock p"
proof (induction ks arbitrary: s)
  case Nil
  then show ?case by simp
next
  case (Cons a ks)
  from Cons.prems obtain product where
    p: "get_Product s a = Some product" "\<not> stock product < Counter_getitem q a"
    and r: "reserve oid q ks
              (append_line oid \<lparr>line_product_id = a, quantity = Counter_getitem q a\<rparr>
                 (set_stock a (stock product - Counter_getitem q a) s)) = Inr s'"
    by (auto simp: Let_def split: option.splits if_splits)
  from Cons.prems have d: "distinct ks" "a \<notin> set ks" by simp_all
  show ?case
  proof (cases "k = a")
    case True
    with p show ?thesis by simp
  next
    case False
    with Cons.prems have "k \<in> set ks" by simp
    from Cons.IH [OF d(1) r this] False d(2) \<open>k \<in> set ks\<close> show ?thesis
      by (auto simp: get_Product_set_stock)
  qed
qed

lemma reserve_Inl:
  "distinct ks \<Longrightarrow> reserve oid q ks s = Inl e \<Longrightarrow>
   \<exists>k\<in>set ks. (e = ProductDoesNotExist k \<and> get_Product s k = None) \<or>
              (e = InsufficientSupply k \<and>
               (\<exists>p. get_Product s k = Some p \<and> stock p < Counter_getitem q k))"
proof (induction ks arbitrary: s)
  case Nil
  then show ?case by simp
next
  case (Cons a ks)
  from Cons.prems have d: "distinct ks" "a \<notin> set ks" by simp_all
  show ?case
  proof (cases "get_Product s a")
    case None
    with Cons.prems show ?thesis by simp
  next
    case (Some product)
    show ?thesis
    proof (cases "stock product < Counter_getitem q a")
      case True
      with Some Cons.prems show ?thesis by (simp add: Let_def)
    next
      case False
      with Some Cons.prems have r: "reserve oid q ks
              (append_line oid \<lparr>line_product_id = a, quantity = Counter_getitem q a\<rparr>
                 (set_stock a (stock product - Counter_getitem q a) s)) = Inl e"
        by (simp add: Let_def)
      from Cons.IH [OF d(1) r] obtain k where k: "k \<in> set ks"
        "(e = ProductDoesNotExist k \<and>
          get_Product (set_stock a (stock product - Counter_getitem q a) s) k = None) \<or>
         (e = InsufficientSupply k \<and>
          (\<exists>p. get_Product (set_stock a (stock product - Counter_getitem q a) s) k = Some p \<and>
               stock p < Counter_getitem q k))"
        by auto
      from k(1) d(2) have "k \<noteq> a" by auto
      with k show ?thesis by (auto simp: get_Product_set_stock)
    qed
  qed
qed

lemma reserve_succeeds:
  "distinct ks \<Longrightarrow>
   \<forall>k\<in>set ks. \<exists>p. get_Product s k = Some p \<and> Counter_getitem q k \<le> stock p \<Longrightarrow>
   \<exists>s'. reserve oid q ks s = Inr s'"
proof (cases "reserve oid q ks s")
  case (Inl e)
  assume "distinct ks"
    and ok: "\<forall>k\<in>set ks. \<exists>p. get_Product s k = Some p \<and> Counter_getitem q k \<le> stock p"
  from reserve_Inl [OF \<open>distinct ks\<close> Inl] ok show ?thesis by fastforce
next
  case (Inr s')
  then show ?thesis by simp
qed

section \<open>Creating an order\<close>

lemma get_Order_None: "get_Order s i = None \<longleftrightarrow> (\<forall>r\<in>set (Orders s). order_id r \<noteq> i)"
  by (auto simp: get_Order_def find_None_iff)

lemma add_order_reserve:
  assumes "od_customer_id data = Some cid" and "od_date data = Some d"
    and "get_Customer db cid \<noteq> None" and "od_product_ids data = Some product_ids"
    and "oid = (case od_order_id data of Some i \<Rightarrow> i | None \<Rightarrow> auto_id)"
    and "get_Order db oid = None"
  shows "add_order set_iter auto_id data db =
         (case reserve oid (Counter product_ids) (set_iter product_ids)
                 (db\<lparr>Orders := Orders db @
                    [\<lparr>order_id = oid, date = d, order_customer_id = cid, order_products = []\<rparr>]\<rparr>) of
            Inl e \<Rightarrow> (Failure e, db)
          | Inr s \<Rightarrow> (Success, s))"
  using assms by (auto simp: add_order_def Let_def split: option.splits)

lemma add_order_Success:
  assumes "add_order set_iter auto_id data db = (Success, db')"
  shows "\<exists>cid d product_ids oid.
           od_customer_id data = Some cid \<and> od_date data = Some d \<and>
           get_Customer db cid \<noteq> None \<and> od_product_ids data = Some product_ids \<and>
           oid = (case od_order_id data of Some i \<Rightarrow> i | None \<Rightarrow> auto_id) \<and>
           get_Order db oid = None \<and>
           reserve oid (Counter product_ids) (set_iter product_ids)
             (db\<lparr>Orders := Orders db @
                [\<lparr>order_id = oid, date = d, order_customer_id = cid, order_products = []\<rparr>]\<rparr>) = Inr db'"
  using assms
  by (auto simp: add_order_def Let_def split: option.splits sum.splits if_splits)

lemma add_order_Failure:
  "add_order set_iter auto_id data db = (Failure e, db') \<Longrightarrow> db' = db"
  by (auto simp: add_order_def Let_def split: option.splits sum.splits if_splits)


lemma add_order_succeeds:
  assumes so: "set_order set_iter"
    and cid: "od_customer_id data = Some cid" and d: "od_date data = Some d"
    and cust: "get_Customer db cid \<noteq> None" and pids: "od_product_ids data = Some product_ids"
    and oid: "oid = (case od_order_id data of Some i \<Rightarrow> i | None \<Rightarrow> auto_id)"
    and fresh: "get_Order db oid = None"
    and ok: "\<forall>k\<in>set product_ids. \<exists>p. get_Product db k = Some p \<and>
               int (count_list product_ids k) \<le> stock p"
  shows "\<exists>db'. add_order set_iter auto_id data db = (Success, db') \<and>
           Orders db' = Orders db @
             [\<lparr>order_id = oid, date = d, order_customer_id = cid,
               order_products = map (\<lambda>k. \<lparr>line_product_id = k,
                                           quantity = int (count_list product_ids k)\<rparr>)
                                    (set_iter product_ids)\<rparr>] \<and>
           (\<forall>k. get_Product db' k =
                  map_option (\<lambda>p. p\<lparr>stock := stock p - int (count_list product_ids k)\<rparr>)
                    (get_Product db k)) \<and>
           map product_id (Products db') = map product_id (Products db) \<and>
           Customers db' = Customers db \<and> Customer_Accounts db' = Customer_Accounts db"
proof -
  let ?s0 = "db\<lparr>Orders := Orders db @
                [\<lparr>order_id = oid, date = d, order_customer_id = cid, order_products = []\<rparr>]\<rparr>"
  let ?ks = "set_iter product_ids"
  from so have dist: "distinct ?ks" and sks: "set ?ks = set product_ids"
    by (simp_all add: set_order_def)
  have g0: "\<And>k. get_Product ?s0 k = get_Product db k" by (simp add: get_Product_def)
  from ok have "\<forall>k\<in>set ?ks. \<exists>p. get_Product ?s0 k = Some p \<and>
                  Counter_getitem (Counter product_ids) k \<le> stock p"
    by (simp add: sks g0 Counter_getitem_count)
  from reserve_succeeds [OF dist this] obtain db' where
    r: "reserve oid (Counter product_ids) ?ks ?s0 = Inr db'" by blast
  have res: "add_order set_iter auto_id data db = (Success, db')"
    using add_order_reserve [OF cid d cust pids oid fresh, of set_iter] r by simp
  from fresh have nf: "\<forall>r\<in>set (Orders db). order_id r \<noteq> oid" by (simp add: get_Order_None)
  have ord: "Orders db' = Orders db @
             [\<lparr>order_id = oid, date = d, order_customer_id = cid,
               order_products = map (\<lambda>k. \<lparr>line_product_id = k,
                                           quantity = int (count_list product_ids k)\<rparr>) ?ks\<rparr>]"
    using reserve_Orders [OF r] nf by (simp add: Counter_getitem_count map_idI)
  have prod: "\<forall>k. get_Product db' k =
                  map_option (\<lambda>p. p\<lparr>stock := stock p - int (count_list product_ids k)\<rparr>)
                    (get_Product db k)"
  proof
    fix k
    show "get_Product db' k =
            map_option (\<lambda>p. p\<lparr>stock := stock p - int (count_list product_ids k)\<rparr>)
              (get_Product db k)"
    proof (cases "k \<in> set product_ids")
      case True
      then show ?thesis
        using reserve_Products [OF dist r, of k] by (simp add: sks g0 Counter_getitem_count)
    next
      case False
      then have "count_list product_ids k = 0" by (simp add: count_list_0_iff)
      with False show ?thesis
        using reserve_Products [OF dist r, of k] by (simp add: sks g0 option.map_ident)
    qed
  qed
  from reserve_frame [OF r] have fr: "map product_id (Products db') = map product_id (Products db)"
    "Customers db' = Customers db" "Customer_Accounts db' = Customer_Accounts db"
    by simp_all
  from res ord prod fr show ?thesis by blast
qed

lemma add_order_short:
  assumes so: "set_order set_iter"
    and pids: "od_product_ids data = Some product_ids"
    and bad: "\<not> (\<forall>k\<in>set product_ids. \<exists>p. get_Product db k = Some p \<and>
                   int (count_list product_ids k) \<le> stock p)"
  shows "\<exists>e. add_order set_iter auto_id data db = (Failure e, db)"
proof (cases "add_order set_iter auto_id data db")
  case (Pair r db')
  show ?thesis
  proof (cases r)
    case Success
    with Pair have "add_order set_iter auto_id data db = (Success, db')" by simp
    from add_order_Success [OF this] pids obtain cid d oid where
      r: "reserve oid (Counter product_ids) (set_iter product_ids)
             (db\<lparr>Orders := Orders db @
                [\<lparr>order_id = oid, date = d, order_customer_id = cid, order_products = []\<rparr>]\<rparr>) = Inr db'"
      by auto
    from so have dist: "distinct (set_iter product_ids)"
      and sks: "set (set_iter product_ids) = set product_ids"
      by (simp_all add: set_order_def)
    have "\<forall>k\<in>set product_ids. \<exists>p. get_Product db k = Some p \<and>
             int (count_list product_ids k) \<le> stock p"
    proof
      fix k assume "k \<in> set product_ids"
      then have "k \<in> set (set_iter product_ids)" by (simp add: sks)
      from reserve_Inr_available [OF dist r this] show
        "\<exists>p. get_Product db k = Some p \<and> int (count_list product_ids k) \<le> stock p"
        by (simp add: get_Product_def Counter_getitem_count)
    qed
    with bad show ?thesis by blast
  next
    case (Failure e)
    with Pair add_order_Failure [of set_iter auto_id data db e db'] show ?thesis by simp
  qed
qed

lemma add_order_reports:
  assumes so: "set_order set_iter"
    and cid: "od_customer_id data = Some cid" and d: "od_date data = Some d"
    and cust: "get_Customer db cid \<noteq> None" and pids: "od_product_ids data = Some product_ids"
    and oid: "oid = (case od_order_id data of Some i \<Rightarrow> i | None \<Rightarrow> auto_id)"
    and fresh: "get_Order db oid = None"
    and bad: "\<not> (\<forall>k\<in>set product_ids. \<exists>p. get_Product db k = Some p \<and>
                   int (count_list product_ids k) \<le> stock p)"
  shows "\<exists>k\<in>set product_ids.
           (add_order set_iter auto_id data db = (Failure (ProductDoesNotExist k), db) \<and>
            get_Product db k = None) \<or>
           (add_order set_iter auto_id data db = (Failure (InsufficientSupply k), db) \<and>
            (\<exists>p. get_Product db k = Some p \<and> stock p < int (count_list product_ids k)))"
proof -
  let ?s0 = "db\<lparr>Orders := Orders db @
                [\<lparr>order_id = oid, date = d, order_customer_id = cid, order_products = []\<rparr>]\<rparr>"
  from so have dist: "distinct (set_iter product_ids)"
    and sks: "set (set_iter product_ids) = set product_ids"
    by (simp_all add: set_order_def)
  have g0: "\<And>k. get_Product ?s0 k = get_Product db k" by (simp add: get_Product_def)
  note unf = add_order_reserve [OF cid d cust pids oid fresh, of set_iter]
  from add_order_short [OF so pids bad, of auto_id] obtain e where
    f: "add_order set_iter auto_id data db = (Failure e, db)" by blast
  with unf have r: "reserve oid (Counter product_ids) (set_iter product_ids) ?s0 = Inl e"
    by (auto split: sum.splits)
  from reserve_Inl [OF dist r] f show ?thesis
    by (simp add: sks g0 Counter_getitem_count)
qed


lemmas add_order_eval = add_order_def get_Customer_def get_Order_def get_Product_def Counter_def
  Counter_add_def Counter_getitem_def set_stock_def append_line_def Let_def shop_def request_def
  set_order_def

text \<open>
  C1. A create-order request that names a product id with no product row, or a product whose
  stock is less than the number of times the request names it, fails, and the database it
  leaves is the one it found: the stock of every product (also of those the loop had
  already decremented) and the orders are unchanged. When the request passes the checks the
  route makes before the loop (the body loads, the customer exists, the order's key is
  free), the failure names an offending product: \<open>ProductDoesNotExist k\<close> for a \<open>k\<close> with no
  row, or \<open>InsufficientSupply k\<close> for a \<open>k\<close> whose stock is short.
\<close>

theorem add_order_all_or_nothing:
  assumes "set_order set_iter"
    and "od_product_ids data = Some product_ids"
    and "pid \<in> set product_ids"
    and "get_Product db pid = None \<or>
         (\<exists>p. get_Product db pid = Some p \<and> stock p < int (count_list product_ids pid))"
  shows "(\<exists>e. add_order set_iter auto_id data db = (Failure e, db)) \<and>
         (od_customer_id data = Some cid \<and> od_date data = Some d \<and>
          get_Customer db cid \<noteq> None \<and>
          get_Order db (case od_order_id data of Some i \<Rightarrow> i | None \<Rightarrow> auto_id) = None \<longrightarrow>
          (\<exists>k\<in>set product_ids.
             (add_order set_iter auto_id data db = (Failure (ProductDoesNotExist k), db) \<and>
              get_Product db k = None) \<or>
             (add_order set_iter auto_id data db = (Failure (InsufficientSupply k), db) \<and>
              (\<exists>p. get_Product db k = Some p \<and> stock p < int (count_list product_ids k)))))"
proof -
  from assms(3,4) have bad:
    "\<not> (\<forall>k\<in>set product_ids. \<exists>p. get_Product db k = Some p \<and>
           int (count_list product_ids k) \<le> stock p)"
    by fastforce
  show ?thesis
  proof (intro conjI impI)
    show "\<exists>e. add_order set_iter auto_id data db = (Failure e, db)"
      by (rule add_order_short [OF assms(1,2) bad])
  next
    assume h: "od_customer_id data = Some cid \<and> od_date data = Some d \<and>
          get_Customer db cid \<noteq> None \<and>
          get_Order db (case od_order_id data of Some i \<Rightarrow> i | None \<Rightarrow> auto_id) = None"
    show "\<exists>k\<in>set product_ids.
             (add_order set_iter auto_id data db = (Failure (ProductDoesNotExist k), db) \<and>
              get_Product db k = None) \<or>
             (add_order set_iter auto_id data db = (Failure (InsufficientSupply k), db) \<and>
              (\<exists>p. get_Product db k = Some p \<and> stock p < int (count_list product_ids k)))"
    proof -
      from h have c: "od_customer_id data = Some cid" and d: "od_date data = Some d"
        and g: "get_Customer db cid \<noteq> None"
        and f: "get_Order db (case od_order_id data of Some i \<Rightarrow> i | None \<Rightarrow> auto_id) = None"
        by simp_all
      show ?thesis by (rule add_order_reports [OF assms(1) c d g assms(2) refl f bad])
    qed
  qed
qed

text \<open>
  In the shop, product 2 has 4 in stock and product 1 has none. A request for one of each
  visits 2 first and lowers its stock to 3, then fails on 1: the shop is left as it was, with
  4 of product 2.
\<close>

theorem add_order_all_or_nothing_witness:
  "set_order remdups \<and> od_product_ids (request 7 [2, 1]) = Some [2, 1] \<and>
   remdups [2, 1 :: int] = [2, 1] \<and>
   map_option stock (get_Product shop 2) = Some 4 \<and>
   map_option stock (get_Product shop 1) = Some 0 \<and>
   map_sum id (map stock \<circ> Products) (reserve 11 (Counter [2, 1]) [2] shop) = Inr [0, 3, 3] \<and>
   add_order remdups 11 (request 7 [2, 1]) shop = (Failure (InsufficientSupply 1), shop) \<and>
   add_order remdups 11 (request 7 [2, 5]) shop = (Failure (ProductDoesNotExist 5), shop)"
  using add_order_all_or_nothing [of remdups "request 7 [2, 1]" "[2, 1]" 1 shop 11 7 738001]
    add_order_all_or_nothing [of remdups "request 7 [2, 5]" "[2, 5]" 5 shop 11 7 738001]
  by (simp add: add_order_eval)

text \<open>
  C2. A create-order request whose body loads: if the customer does not exist it fails with
  404 and changes nothing. Otherwise (the body has a product list and the order's key is
  free) it succeeds exactly when every product it names exists with a stock of at least the
  number of times it is named. Then the new order is appended with one line per distinct
  product id, each with that count as its quantity, the stock of each product is lowered by
  its count, and nothing else changes; an empty product list gives an order with no lines.
  When a product is missing or short the request fails and changes nothing.
\<close>

theorem add_order_creates:
  assumes "set_order set_iter"
    and "od_customer_id data = Some cid" and "od_date data = Some d"
    and "oid = (case od_order_id data of Some i \<Rightarrow> i | None \<Rightarrow> auto_id)"
  shows "(get_Customer db cid = None \<longrightarrow>
            add_order set_iter auto_id data db = (Failure (CustomerDoesNotExist cid), db) \<and>
            status_code (CustomerDoesNotExist cid) = 404) \<and>
         (get_Customer db cid \<noteq> None \<and> od_product_ids data = Some product_ids \<and>
          get_Order db oid = None \<longrightarrow>
            (if \<forall>k\<in>set product_ids. \<exists>p. get_Product db k = Some p \<and>
                                          int (count_list product_ids k) \<le> stock p
             then \<exists>db' lines.
                    add_order set_iter auto_id data db = (Success, db') \<and>
                    Orders db' = Orders db @ [\<lparr>order_id = oid, date = d, order_customer_id = cid,
                                                order_products = lines\<rparr>] \<and>
                    distinct (map line_product_id lines) \<and>
                    set (map line_product_id lines) = set product_ids \<and>
                    (\<forall>l\<in>set lines. quantity l = int (count_list product_ids (line_product_id l))) \<and>
                    (product_ids = [] \<longrightarrow> lines = []) \<and>
                    (\<forall>k. get_Product db' k =
                           map_option (\<lambda>p. p\<lparr>stock := stock p - int (count_list product_ids k)\<rparr>)
                             (get_Product db k)) \<and>
                    map product_id (Products db') = map product_id (Products db) \<and>
                    Customers db' = Customers db \<and>
                    Customer_Accounts db' = Customer_Accounts db
             else \<exists>e. add_order set_iter auto_id data db = (Failure e, db)))"
proof (intro conjI impI)
  assume "get_Customer db cid = None"
  then show "add_order set_iter auto_id data db = (Failure (CustomerDoesNotExist cid), db)"
    using assms(2,3) by (simp add: add_order_def)
next
  show "status_code (CustomerDoesNotExist cid) = 404" by simp
next
  assume h: "get_Customer db cid \<noteq> None \<and> od_product_ids data = Some product_ids \<and>
          get_Order db oid = None"
  let ?ok = "\<forall>k\<in>set product_ids. \<exists>p. get_Product db k = Some p \<and>
                                          int (count_list product_ids k) \<le> stock p"
  let ?lines = "map (\<lambda>k. \<lparr>line_product_id = k, quantity = int (count_list product_ids k)\<rparr>)
                  (set_iter product_ids)"
  from assms(1) have dist: "distinct (set_iter product_ids)"
    and sks: "set (set_iter product_ids) = set product_ids"
    by (simp_all add: set_order_def)
  have l1: "map line_product_id ?lines = set_iter product_ids" by (simp add: comp_def)
  have l2: "\<forall>l\<in>set ?lines. quantity l = int (count_list product_ids (line_product_id l))"
    by auto
  have l3: "product_ids = [] \<longrightarrow> ?lines = []" using sks by auto
  show "if ?ok
        then \<exists>db' lines.
                    add_order set_iter auto_id data db = (Success, db') \<and>
                    Orders db' = Orders db @ [\<lparr>order_id = oid, date = d, order_customer_id = cid,
                                                order_products = lines\<rparr>] \<and>
                    distinct (map line_product_id lines) \<and>
                    set (map line_product_id lines) = set product_ids \<and>
                    (\<forall>l\<in>set lines. quantity l = int (count_list product_ids (line_product_id l))) \<and>
                    (product_ids = [] \<longrightarrow> lines = []) \<and>
                    (\<forall>k. get_Product db' k =
                           map_option (\<lambda>p. p\<lparr>stock := stock p - int (count_list product_ids k)\<rparr>)
                             (get_Product db k)) \<and>
                    map product_id (Products db') = map product_id (Products db) \<and>
                    Customers db' = Customers db \<and>
                    Customer_Accounts db' = Customer_Accounts db
        else \<exists>e. add_order set_iter auto_id data db = (Failure e, db)"
  proof (cases ?ok)
    case True
    from h have c: "get_Customer db cid \<noteq> None" and p: "od_product_ids data = Some product_ids"
      and f: "get_Order db oid = None" by simp_all
    from add_order_succeeds [OF assms(1,2,3) c p assms(4) f True] obtain db' where
      r: "add_order set_iter auto_id data db = (Success, db')"
        "Orders db' = Orders db @ [\<lparr>order_id = oid, date = d, order_customer_id = cid,
                                    order_products = ?lines\<rparr>]"
        "\<forall>k. get_Product db' k =
               map_option (\<lambda>p. p\<lparr>stock := stock p - int (count_list product_ids k)\<rparr>)
                 (get_Product db k)"
        "map product_id (Products db') = map product_id (Products db)"
        "Customers db' = Customers db" "Customer_Accounts db' = Customer_Accounts db"
      by blast
    have "distinct (map line_product_id ?lines)" "set (map line_product_id ?lines) = set product_ids"
      unfolding l1 using dist sks by simp_all
    then have dl: "distinct (map line_product_id ?lines) \<and>
                   set (map line_product_id ?lines) = set product_ids" by simp
    show ?thesis
      apply (subst if_P [OF True])
      apply (rule exI [of _ db'], rule exI [of _ ?lines])
      using r dl l2 l3 by blast
  next
    case False
    from h have p: "od_product_ids data = Some product_ids" by simp
    from add_order_short [OF assms(1) p False, of auto_id] False show ?thesis
      by (simp only: if_False)
  qed
qed


text \<open>
  In the shop: customer 8 does not exist; customer 7 orders product 2 twice and product 3
  once and gets two lines, with the stocks 4 and 3 lowered to 2 and 2; an empty list gives
  an order without lines.
\<close>

theorem add_order_creates_witness:
  "set_order remdups \<and>
   add_order remdups 11 (request 8 [2]) shop = (Failure (CustomerDoesNotExist 8), shop) \<and>
   fst (add_order remdups 11 (request 7 [2, 3, 2]) shop) = Success \<and>
   Orders (snd (add_order remdups 11 (request 7 [2, 3, 2]) shop)) =
     Orders shop @ [\<lparr>order_id = 11, date = 738001, order_customer_id = 7,
                     order_products = [\<lparr>line_product_id = 3, quantity = 1\<rparr>,
                                       \<lparr>line_product_id = 2, quantity = 2\<rparr>]\<rparr>] \<and>
   map stock (Products shop) = [0, 4, 3] \<and>
   map stock (Products (snd (add_order remdups 11 (request 7 [2, 3, 2]) shop))) = [0, 2, 2] \<and>
   add_order remdups 11 (request 7 []) shop =
     (Success, shop\<lparr>Orders := Orders shop @ [\<lparr>order_id = 11, date = 738001,
                                               order_customer_id = 7, order_products = []\<rparr>]\<rparr>)"
  using add_order_creates [of remdups "request 7 [2, 3, 2]" 7 738001 11 11 shop "[2, 3, 2]"]
    add_order_creates [of remdups "request 8 [2]" 8 738001 11 11 shop "[2]"]
    add_order_creates [of remdups "request 7 []" 7 738001 11 11 shop "[]"]
  by (simp add: add_order_eval)

section \<open>The release loop\<close>

lemma held_Cons:
  "held (l # ls) j = (if line_product_id l = j then quantity l else 0) + held ls j"
  by (simp add: held_def)

lemma release_frame:
  "release ls s = Inr s' \<Longrightarrow>
   Customers s' = Customers s \<and> Customer_Accounts s' = Customer_Accounts s \<and>
   Orders s' = Orders s \<and> map product_id (Products s') = map product_id (Products s)"
proof (induction ls arbitrary: s)
  case Nil
  then show ?case by simp
next
  case (Cons l ls)
  then show ?case by (fastforce split: option.splits)
qed

lemma release_Products:
  "release ls s = Inr s' \<Longrightarrow>
   get_Product s' j = map_option (\<lambda>p. p\<lparr>stock := stock p + held ls j\<rparr>) (get_Product s j)"
proof (induction ls arbitrary: s)
  case Nil
  then show ?case by (simp add: held_def option.map_ident)
next
  case (Cons l ls)
  from Cons.prems obtain product where
    p: "get_Product s (line_product_id l) = Some product"
    and r: "release ls (set_stock (line_product_id l) (stock product + quantity l) s) = Inr s'"
    by (auto split: option.splits)
  show ?case
    unfolding Cons.IH [OF r] using p
    by (cases "get_Product s j") (auto simp: get_Product_set_stock held_Cons)
qed

lemma release_Inl:
  "release ls s = Inl e \<Longrightarrow>
   e = AttributeError \<and> (\<exists>l\<in>set ls. get_Product s (line_product_id l) = None)"
proof (induction ls arbitrary: s)
  case Nil
  then show ?case by simp
next
  case (Cons l ls)
  show ?case
  proof (cases "get_Product s (line_product_id l)")
    case None
    with Cons.prems show ?thesis by simp
  next
    case (Some product)
    with Cons.prems have
      "release ls (set_stock (line_product_id l) (stock product + quantity l) s) = Inl e"
      by simp
    from Cons.IH [OF this] show ?thesis
      by (auto simp: get_Product_set_stock split: if_splits)
  qed
qed

lemma release_succeeds:
  "\<forall>l\<in>set ls. get_Product s (line_product_id l) \<noteq> None \<Longrightarrow> \<exists>s'. release ls s = Inr s'"
  using release_Inl [of ls s] by (cases "release ls s") auto

lemma get_Order_filter: "get_Order (s\<lparr>Orders := filter (\<lambda>r. order_id r \<noteq> i) (Orders s)\<rparr>) i = None"
  by (simp add: get_Order_def find_None_iff)


section \<open>Deleting an order\<close>

lemmas delete_order_eval = delete_order_def get_Order_def get_Product_def set_stock_def shop_def
  held_def

text \<open>
  C6. Deleting an existing order (whose lines name products that exist, as the foreign key
  of \<^verbatim>\<open>Order_Product\<close> demands) succeeds: the stock of every product grows by the
  quantities of the order's lines for that product, counted once, the order and its lines
  are removed, and nothing else changes. Deleting the same id again fails with
  \<open>OrderNotFound\<close> (404) and leaves the database as it is.
\<close>

theorem delete_order_releases_once:
  assumes "get_Order db oid = Some order"
    and "\<forall>l\<in>set (order_products order). get_Product db (line_product_id l) \<noteq> None"
  shows "\<exists>db'. delete_order oid db = (Success, db') \<and>
           (\<forall>k. get_Product db' k =
                  map_option (\<lambda>p. p\<lparr>stock := stock p + held (order_products order) k\<rparr>)
                    (get_Product db k)) \<and>
           map product_id (Products db') = map product_id (Products db) \<and>
           Orders db' = filter (\<lambda>r. order_id r \<noteq> oid) (Orders db) \<and>
           Customers db' = Customers db \<and> Customer_Accounts db' = Customer_Accounts db \<and>
           get_Order db' oid = None \<and>
           delete_order oid db' = (Failure OrderNotFound, db') \<and>
           status_code OrderNotFound = 404"
proof -
  from release_succeeds [OF assms(2)] obtain s where r: "release (order_products order) db = Inr s"
    by blast
  let ?db' = "s\<lparr>Orders := filter (\<lambda>r. order_id r \<noteq> oid) (Orders s)\<rparr>"
  have res: "delete_order oid db = (Success, ?db')"
    using assms(1) r by (simp add: delete_order_def)
  have prod: "\<forall>k. get_Product ?db' k =
                  map_option (\<lambda>p. p\<lparr>stock := stock p + held (order_products order) k\<rparr>)
                    (get_Product db k)"
    using release_Products [OF r] by (simp add: get_Product_def)
  from release_frame [OF r] have fr:
    "map product_id (Products ?db') = map product_id (Products db)"
    "Orders ?db' = filter (\<lambda>r. order_id r \<noteq> oid) (Orders db)"
    "Customers ?db' = Customers db" "Customer_Accounts ?db' = Customer_Accounts db"
    by simp_all
  have gone: "get_Order ?db' oid = None" by (rule get_Order_filter)
  then have again: "delete_order oid ?db' = (Failure OrderNotFound, ?db')"
    by (simp add: delete_order_def)
  have st: "status_code OrderNotFound = 404" by simp
  show ?thesis
    apply (rule exI [of _ ?db'])
    using res prod fr gone again st by blast
qed

text \<open>
  Order 10 of the shop holds two of product 1 and one of product 2: deleting it raises the
  stocks 0, 4, 3 to 2, 5, 3 and leaves no order; the second delete is refused.
\<close>

theorem delete_order_releases_once_witness:
  "map_option order_products (get_Order shop 10) =
     Some [\<lparr>line_product_id = 1, quantity = 2\<rparr>, \<lparr>line_product_id = 2, quantity = 1\<rparr>] \<and>
   fst (delete_order 10 shop) = Success \<and>
   map stock (Products shop) = [0, 4, 3] \<and>
   map stock (Products (snd (delete_order 10 shop))) = [2, 5, 3] \<and>
   Orders (snd (delete_order 10 shop)) = [] \<and>
   delete_order 10 (snd (delete_order 10 shop)) =
     (Failure OrderNotFound, snd (delete_order 10 shop))"
  using delete_order_releases_once [of shop 10 "hd (Orders shop)"]
  by (simp add: delete_order_eval)

section \<open>Replacing the products of an order\<close>

text \<open>The two loops of \<^verbatim>\<open>update_order\<close> in a row, as the route runs them.\<close>

lemma replace_Inr:
  assumes dist: "distinct ks"
    and rel: "release ls db = Inr s1"
    and res: "reserve oid q ks (delete_lines oid s1) = Inr s"
  shows "Orders s = map (\<lambda>r. if order_id r = oid
                            then r\<lparr>order_products :=
                                   map (\<lambda>k. \<lparr>line_product_id = k,
                                               quantity = Counter_getitem q k\<rparr>) ks\<rparr>
                            else r) (Orders db)"
    and "get_Product s j =
           map_option (\<lambda>p. p\<lparr>stock := stock p + held ls j -
                                         (if j \<in> set ks then Counter_getitem q j else 0)\<rparr>)
             (get_Product db j)"
    and "map product_id (Products s) = map product_id (Products db)"
    and "Customers s = Customers db" and "Customer_Accounts s = Customer_Accounts db"
proof -
  from release_frame [OF rel] have f1: "Orders s1 = Orders db"
    "map product_id (Products s1) = map product_id (Products db)"
    "Customers s1 = Customers db" "Customer_Accounts s1 = Customer_Accounts db"
    by simp_all
  from reserve_frame [OF res] f1 show "map product_id (Products s) = map product_id (Products db)"
    "Customers s = Customers db" "Customer_Accounts s = Customer_Accounts db"
    by simp_all
  show "Orders s = map (\<lambda>r. if order_id r = oid
                            then r\<lparr>order_products :=
                                   map (\<lambda>k. \<lparr>line_product_id = k,
                                               quantity = Counter_getitem q k\<rparr>) ks\<rparr>
                            else r) (Orders db)"
    unfolding reserve_Orders [OF res] by (simp add: delete_lines_def f1 comp_def)
  show "get_Product s j =
           map_option (\<lambda>p. p\<lparr>stock := stock p + held ls j -
                                         (if j \<in> set ks then Counter_getitem q j else 0)\<rparr>)
             (get_Product db j)"
    unfolding reserve_Products [OF dist res]
    by (cases "get_Product db j") (simp_all add: release_Products [OF rel])
qed

lemma replace_available:
  assumes dist: "distinct ks"
    and rel: "release ls db = Inr s1"
    and res: "reserve oid q ks (delete_lines oid s1) = Inr s"
    and k: "k \<in> set ks"
  shows "\<exists>p. get_Product db k = Some p \<and> Counter_getitem q k \<le> stock p + held ls k"
  using reserve_Inr_available [OF dist res k]
  by (cases "get_Product db k") (simp_all add: release_Products [OF rel])

lemma replace_succeeds:
  assumes dist: "distinct ks"
    and rel: "release ls db = Inr s1"
    and ok: "\<forall>k\<in>set ks. \<exists>p. get_Product db k = Some p \<and>
                             Counter_getitem q k \<le> stock p + held ls k"
  shows "\<exists>s. reserve oid q ks (delete_lines oid s1) = Inr s"
proof (rule reserve_succeeds [OF dist])
  show "\<forall>k\<in>set ks. \<exists>p. get_Product (delete_lines oid s1) k = Some p \<and>
                       Counter_getitem q k \<le> stock p"
    using ok by (fastforce simp: release_Products [OF rel])
qed

lemma replace_Inl:
  assumes dist: "distinct ks"
    and rel: "release ls db = Inr s1"
    and res: "reserve oid q ks (delete_lines oid s1) = Inl e"
  shows "\<exists>k\<in>set ks. (e = ProductDoesNotExist k \<and> get_Product db k = None) \<or>
                     (e = InsufficientSupply k \<and>
                      (\<exists>p. get_Product db k = Some p \<and>
                           stock p + held ls k < Counter_getitem q k))"
proof -
  from reserve_Inl [OF dist res] obtain k where k: "k \<in> set ks"
    "(e = ProductDoesNotExist k \<and> get_Product (delete_lines oid s1) k = None) \<or>
     (e = InsufficientSupply k \<and>
      (\<exists>p. get_Product (delete_lines oid s1) k = Some p \<and> stock p < Counter_getitem q k))"
    by blast
  from k(2) have "(e = ProductDoesNotExist k \<and> get_Product db k = None) \<or>
                     (e = InsufficientSupply k \<and>
                      (\<exists>p. get_Product db k = Some p \<and>
                           stock p + held ls k < Counter_getitem q k))"
    by (cases "get_Product db k") (auto simp: release_Products [OF rel])
  with k(1) show ?thesis by blast
qed


lemma customer_named_frame:
  "Customers s = Customers db \<Longrightarrow> customer_named data s = customer_named data db"
  by (cases "od_customer_id data") (simp_all add: customer_named_def get_Customer_def)

lemma update_order_replace:
  assumes "get_Order db oid = Some order" and "od_product_ids data = Some product_ids"
    and "od_order_id data = None"
  shows "update_order set_iter stale_lines oid data db =
         (case release (order_products order) db of
            Inl e \<Rightarrow> (Failure e, db)
          | Inr s1 \<Rightarrow>
              (case reserve oid (Counter product_ids) (set_iter product_ids) (delete_lines oid s1) of
                 Inl e \<Rightarrow> (Failure e, db)
               | Inr s \<Rightarrow>
                   if customer_named data s
                   then (Success, s\<lparr>Orders := map (\<lambda>r. if order_id r = oid
                                                          then setattr_order data r else r)
                                                   (Orders s)\<rparr>)
                   else (Failure IntegrityError, db)))"
  using assms by (simp add: update_order_def update_refused_def split: sum.splits)

lemma update_order_replace_ok:
  assumes so: "set_order set_iter"
    and ord: "get_Order db oid = Some order"
    and pids: "od_product_ids data = Some product_ids"
    and norename: "od_order_id data = None"
    and fk: "\<forall>l\<in>set (order_products order). get_Product db (line_product_id l) \<noteq> None"
    and ok: "\<forall>k\<in>set product_ids. \<exists>p. get_Product db k = Some p \<and>
               int (count_list product_ids k) \<le> stock p + held (order_products order) k"
    and cn: "customer_named data db"
  shows "\<exists>db'. update_order set_iter stale_lines oid data db = (Success, db') \<and>
           Orders db' =
             map (\<lambda>r. if order_id r = oid
                       then setattr_order data
                              (r\<lparr>order_products :=
                                    map (\<lambda>k. \<lparr>line_product_id = k,
                                                quantity = int (count_list product_ids k)\<rparr>)
                                      (set_iter product_ids)\<rparr>)
                       else r) (Orders db) \<and>
           (\<forall>k. get_Product db' k =
                  map_option (\<lambda>p. p\<lparr>stock := stock p + held (order_products order) k -
                                                int (count_list product_ids k)\<rparr>)
                    (get_Product db k)) \<and>
           map product_id (Products db') = map product_id (Products db) \<and>
           Customers db' = Customers db \<and> Customer_Accounts db' = Customer_Accounts db"
proof -
  let ?ks = "set_iter product_ids" and ?q = "Counter product_ids"
  from so have dist: "distinct ?ks" and sks: "set ?ks = set product_ids"
    by (simp_all add: set_order_def)
  from release_succeeds [OF fk] obtain s1 where rel: "release (order_products order) db = Inr s1"
    by blast
  from ok have "\<forall>k\<in>set ?ks. \<exists>p. get_Product db k = Some p \<and>
                  Counter_getitem ?q k \<le> stock p + held (order_products order) k"
    by (simp add: sks Counter_getitem_count)
  from replace_succeeds [OF dist rel this] obtain s where
    res: "reserve oid ?q ?ks (delete_lines oid s1) = Inr s" by blast
  let ?db' = "s\<lparr>Orders := map (\<lambda>r. if order_id r = oid then setattr_order data r else r)
                              (Orders s)\<rparr>"
  note R = replace_Inr [OF dist rel res]
  from cn customer_named_frame [OF R(4), of data] have "customer_named data s" by simp
  then have r: "update_order set_iter stale_lines oid data db = (Success, ?db')"
    using update_order_replace [OF ord pids norename, of set_iter stale_lines] rel res by simp
  have o: "Orders ?db' =
             map (\<lambda>r. if order_id r = oid
                       then setattr_order data
                              (r\<lparr>order_products :=
                                    map (\<lambda>k. \<lparr>line_product_id = k,
                                                quantity = int (count_list product_ids k)\<rparr>)
                                      (set_iter product_ids)\<rparr>)
                       else r) (Orders db)"
    by (simp add: R(1) comp_def Counter_getitem_count)
  have p: "\<forall>k. get_Product ?db' k =
                  map_option (\<lambda>p. p\<lparr>stock := stock p + held (order_products order) k -
                                                int (count_list product_ids k)\<rparr>)
                    (get_Product db k)"
  proof
    fix k
    have "(if k \<in> set ?ks then Counter_getitem ?q k else 0) = int (count_list product_ids k)"
      by (simp add: sks Counter_getitem_count count_list_0_iff)
    moreover have "get_Product ?db' k = get_Product s k" by (simp add: get_Product_def)
    ultimately show "get_Product ?db' k =
                  map_option (\<lambda>p. p\<lparr>stock := stock p + held (order_products order) k -
                                                int (count_list product_ids k)\<rparr>)
                    (get_Product db k)"
      using R(2) [of k] by simp
  qed
  have f: "map product_id (Products ?db') = map product_id (Products db)"
    "Customers ?db' = Customers db" "Customer_Accounts ?db' = Customer_Accounts db"
    using R(3,4,5) by simp_all
  show ?thesis
    apply (rule exI [of _ ?db'])
    using r o p f by blast
qed

lemma update_order_replace_short:
  assumes so: "set_order set_iter"
    and ord: "get_Order db oid = Some order"
    and pids: "od_product_ids data = Some product_ids"
    and norename: "od_order_id data = None"
    and fk: "\<forall>l\<in>set (order_products order). get_Product db (line_product_id l) \<noteq> None"
    and bad: "\<not> (\<forall>k\<in>set product_ids. \<exists>p. get_Product db k = Some p \<and>
               int (count_list product_ids k) \<le> stock p + held (order_products order) k)"
  shows "\<exists>k\<in>set product_ids.
           (update_order set_iter stale_lines oid data db =
              (Failure (ProductDoesNotExist k), db) \<and>
            get_Product db k = None) \<or>
           (update_order set_iter stale_lines oid data db =
              (Failure (InsufficientSupply k), db) \<and>
            (\<exists>p. get_Product db k = Some p \<and>
                 stock p + held (order_products order) k < int (count_list product_ids k)))"
proof -
  let ?ks = "set_iter product_ids" and ?q = "Counter product_ids"
  from so have dist: "distinct ?ks" and sks: "set ?ks = set product_ids"
    by (simp_all add: set_order_def)
  from release_succeeds [OF fk] obtain s1 where rel: "release (order_products order) db = Inr s1"
    by blast
  note unf = update_order_replace [OF ord pids norename, of set_iter stale_lines]
  show ?thesis
  proof (cases "reserve oid ?q ?ks (delete_lines oid s1)")
    case (Inl e)
    with unf rel have "update_order set_iter stale_lines oid data db = (Failure e, db)" by simp
    with replace_Inl [OF dist rel Inl] show ?thesis
      by (simp add: sks Counter_getitem_count)
  next
    case (Inr s)
    have "\<forall>k\<in>set product_ids. \<exists>p. get_Product db k = Some p \<and>
               int (count_list product_ids k) \<le> stock p + held (order_products order) k"
    proof
      fix k assume "k \<in> set product_ids"
      then have "k \<in> set ?ks" by (simp add: sks)
      from replace_available [OF dist rel Inr this] show
        "\<exists>p. get_Product db k = Some p \<and>
               int (count_list product_ids k) \<le> stock p + held (order_products order) k"
        by (simp add: Counter_getitem_count)
    qed
    with bad show ?thesis by blast
  qed
qed


lemma update_order_replace_unnamed:
  assumes so: "set_order set_iter"
    and ord: "get_Order db oid = Some order"
    and pids: "od_product_ids data = Some product_ids"
    and norename: "od_order_id data = None"
    and fk: "\<forall>l\<in>set (order_products order). get_Product db (line_product_id l) \<noteq> None"
    and ok: "\<forall>k\<in>set product_ids. \<exists>p. get_Product db k = Some p \<and>
               int (count_list product_ids k) \<le> stock p + held (order_products order) k"
    and cn: "\<not> customer_named data db"
  shows "update_order set_iter stale_lines oid data db = (Failure IntegrityError, db)"
proof -
  let ?ks = "set_iter product_ids" and ?q = "Counter product_ids"
  from so have dist: "distinct ?ks" and sks: "set ?ks = set product_ids"
    by (simp_all add: set_order_def)
  from release_succeeds [OF fk] obtain s1 where rel: "release (order_products order) db = Inr s1"
    by blast
  from ok have "\<forall>k\<in>set ?ks. \<exists>p. get_Product db k = Some p \<and>
                  Counter_getitem ?q k \<le> stock p + held (order_products order) k"
    by (simp add: sks Counter_getitem_count)
  from replace_succeeds [OF dist rel this] obtain s where
    res: "reserve oid ?q ?ks (delete_lines oid s1) = Inr s" by blast
  note R = replace_Inr [OF dist rel res]
  from cn customer_named_frame [OF R(4), of data] have "\<not> customer_named data s" by simp
  then show ?thesis
    using update_order_replace [OF ord pids norename, of set_iter stale_lines] rel res by simp
qed

lemmas update_order_eval = update_order_def update_refused_def customer_named_def
  lines_of_order_def setattr_order_def get_Order_def get_Product_def get_Customer_def
  Counter_def Counter_add_def Counter_getitem_def set_stock_def append_line_def delete_lines_def
  Let_def shop_def replace_request_def set_order_def held_def

text \<open>
  C3. A request that replaces the products of an existing order (a body with
  \<^verbatim>\<open>product_ids\<close> and no \<^verbatim>\<open>order_id\<close>; the order's lines name products that exist)
  first gives the order's quantities back and then reserves against the restored stock.
  When the body names no customer, or one that exists, it succeeds exactly when every
  product it names exists with stock plus the quantity the order held of it at least the
  number of times it is named. Then the order's lines are the new ones, one per distinct id
  with its count, and each product's stock has changed by what the order held minus the new
  count. Otherwise the request fails, naming a product that is missing or short, and the
  database is the one it found: the order keeps its lines and every stock its value. When
  the body names a customer that does not exist the request fails as well, and again the
  database is the one it found.
\<close>

theorem update_order_replaces_atomically:
  assumes "set_order set_iter"
    and "get_Order db oid = Some order"
    and "od_product_ids data = Some product_ids"
    and "od_order_id data = None"
    and "\<forall>l\<in>set (order_products order). get_Product db (line_product_id l) \<noteq> None"
  shows "(customer_named data db \<longrightarrow>
          (if \<forall>k\<in>set product_ids. \<exists>p. get_Product db k = Some p \<and>
                int (count_list product_ids k) \<le> stock p + held (order_products order) k
           then \<exists>db' lines.
                  update_order set_iter stale_lines oid data db = (Success, db') \<and>
                  Orders db' = map (\<lambda>r. if order_id r = oid
                                         then setattr_order data (r\<lparr>order_products := lines\<rparr>)
                                         else r) (Orders db) \<and>
                  distinct (map line_product_id lines) \<and>
                  set (map line_product_id lines) = set product_ids \<and>
                  (\<forall>l\<in>set lines. quantity l = int (count_list product_ids (line_product_id l))) \<and>
                  (\<forall>k. get_Product db' k =
                         map_option (\<lambda>p. p\<lparr>stock := stock p + held (order_products order) k -
                                                       int (count_list product_ids k)\<rparr>)
                           (get_Product db k)) \<and>
                  map product_id (Products db') = map product_id (Products db) \<and>
                  Customers db' = Customers db \<and> Customer_Accounts db' = Customer_Accounts db
           else \<exists>k\<in>set product_ids.
                  (update_order set_iter stale_lines oid data db =
                     (Failure (ProductDoesNotExist k), db) \<and>
                   get_Product db k = None) \<or>
                  (update_order set_iter stale_lines oid data db =
                     (Failure (InsufficientSupply k), db) \<and>
                   (\<exists>p. get_Product db k = Some p \<and>
                        stock p + held (order_products order) k <
                          int (count_list product_ids k))))) \<and>
         (\<not> customer_named data db \<longrightarrow>
          (\<exists>e. update_order set_iter stale_lines oid data db = (Failure e, db)))"
proof (intro conjI impI)
  assume cn: "customer_named data db"
  show "if \<forall>k\<in>set product_ids. \<exists>p. get_Product db k = Some p \<and>
                int (count_list product_ids k) \<le> stock p + held (order_products order) k
           then \<exists>db' lines.
                  update_order set_iter stale_lines oid data db = (Success, db') \<and>
                  Orders db' = map (\<lambda>r. if order_id r = oid
                                         then setattr_order data (r\<lparr>order_products := lines\<rparr>)
                                         else r) (Orders db) \<and>
                  distinct (map line_product_id lines) \<and>
                  set (map line_product_id lines) = set product_ids \<and>
                  (\<forall>l\<in>set lines. quantity l = int (count_list product_ids (line_product_id l))) \<and>
                  (\<forall>k. get_Product db' k =
                         map_option (\<lambda>p. p\<lparr>stock := stock p + held (order_products order) k -
                                                       int (count_list product_ids k)\<rparr>)
                           (get_Product db k)) \<and>
                  map product_id (Products db') = map product_id (Products db) \<and>
                  Customers db' = Customers db \<and> Customer_Accounts db' = Customer_Accounts db
           else \<exists>k\<in>set product_ids.
                  (update_order set_iter stale_lines oid data db =
                     (Failure (ProductDoesNotExist k), db) \<and>
                   get_Product db k = None) \<or>
                  (update_order set_iter stale_lines oid data db =
                     (Failure (InsufficientSupply k), db) \<and>
                   (\<exists>p. get_Product db k = Some p \<and>
                        stock p + held (order_products order) k <
                          int (count_list product_ids k)))"
  proof (cases "\<forall>k\<in>set product_ids. \<exists>p. get_Product db k = Some p \<and>
                int (count_list product_ids k) \<le> stock p + held (order_products order) k")
    case True
    let ?lines = "map (\<lambda>k. \<lparr>line_product_id = k, quantity = int (count_list product_ids k)\<rparr>)
                    (set_iter product_ids)"
    from assms(1) have dist: "distinct (set_iter product_ids)"
      and sks: "set (set_iter product_ids) = set product_ids"
      by (simp_all add: set_order_def)
    have l1: "map line_product_id ?lines = set_iter product_ids" by (simp add: comp_def)
    have l2: "\<forall>l\<in>set ?lines. quantity l = int (count_list product_ids (line_product_id l))"
      by auto
    have dl: "distinct (map line_product_id ?lines) \<and>
              set (map line_product_id ?lines) = set product_ids"
      unfolding l1 using dist sks by simp
    from update_order_replace_ok [OF assms True cn, of stale_lines] obtain db' where
      r: "update_order set_iter stale_lines oid data db = (Success, db')"
        "Orders db' = map (\<lambda>r. if order_id r = oid
                               then setattr_order data (r\<lparr>order_products := ?lines\<rparr>)
                               else r) (Orders db)"
        "\<forall>k. get_Product db' k =
               map_option (\<lambda>p. p\<lparr>stock := stock p + held (order_products order) k -
                                             int (count_list product_ids k)\<rparr>)
                 (get_Product db k)"
        "map product_id (Products db') = map product_id (Products db)"
        "Customers db' = Customers db" "Customer_Accounts db' = Customer_Accounts db"
      by blast
    show ?thesis
      apply (subst if_P [OF True])
      apply (rule exI [of _ db'], rule exI [of _ ?lines])
      using r dl l2 by blast
  next
    case False
    show ?thesis
      apply (subst if_not_P [OF False])
      by (rule update_order_replace_short [OF assms False])
  qed
next
  assume cn: "\<not> customer_named data db"
  show "\<exists>e. update_order set_iter stale_lines oid data db = (Failure e, db)"
  proof (cases "\<forall>k\<in>set product_ids. \<exists>p. get_Product db k = Some p \<and>
                int (count_list product_ids k) \<le> stock p + held (order_products order) k")
    case True
    from update_order_replace_unnamed [OF assms True cn, of stale_lines] show ?thesis by blast
  next
    case False
    from update_order_replace_short [OF assms False, of stale_lines] show ?thesis by blast
  qed
qed

text \<open>
  Order 10 of the shop holds \<open>[A:2, B:1]\<close> (products 1 and 2) and the stocks of A, B, C are
  0, 4, 3. Replacing its products by \<open>[A:1, C:3]\<close> succeeds with the stocks 1, 5, 0: A one
  up, B one up, C three down. Asking for four of C instead fails on C after A has passed,
  and leaves the shop, with the order and all three stocks, as it was. So does a body that
  asks for two of A and moves the order to customer 8, who does not exist.
\<close>

theorem update_order_replaces_atomically_witness:
  "set_order remdups \<and>
   map_option order_products (get_Order shop 10) =
     Some [\<lparr>line_product_id = 1, quantity = 2\<rparr>, \<lparr>line_product_id = 2, quantity = 1\<rparr>] \<and>
   map stock (Products shop) = [0, 4, 3] \<and>
   customer_named (replace_request [1, 3, 3, 3]) shop \<and>
   fst (update_order remdups True 10 (replace_request [1, 3, 3, 3]) shop) = Success \<and>
   map stock (Products (snd (update_order remdups True 10 (replace_request [1, 3, 3, 3]) shop))) =
     [1, 5, 0] \<and>
   map order_products
     (Orders (snd (update_order remdups True 10 (replace_request [1, 3, 3, 3]) shop))) =
     [[\<lparr>line_product_id = 1, quantity = 1\<rparr>, \<lparr>line_product_id = 3, quantity = 3\<rparr>]] \<and>
   remdups [1, 3, 3, 3, 3 :: int] = [1, 3] \<and>
   update_order remdups True 10 (replace_request [1, 3, 3, 3, 3]) shop =
     (Failure (InsufficientSupply 3), shop) \<and>
   get_Customer shop 8 = None \<and>
   update_order remdups True 10 ((replace_request [1, 1])\<lparr>od_customer_id := Some 8\<rparr>) shop =
     (Failure IntegrityError, shop)"
  using update_order_replaces_atomically
          [of remdups shop 10 "hd (Orders shop)" "replace_request [1, 3, 3, 3]" "[1, 3, 3, 3]"
              True]
        update_order_replaces_atomically
          [of remdups shop 10 "hd (Orders shop)" "replace_request [1, 3, 3, 3, 3]"
              "[1, 3, 3, 3, 3]" True]
        update_order_replaces_atomically
          [of remdups shop 10 "hd (Orders shop)"
              "(replace_request [1, 1])\<lparr>od_customer_id := Some 8\<rparr>" "[1, 1]" True]
  by (simp add: update_order_eval)

text \<open>
  C10. In a replace request (a body with \<^verbatim>\<open>product_ids\<close> and no \<^verbatim>\<open>order_id\<close>, on an order
  whose lines name products that exist) the sufficiency check of each product is made
  against the stock after the order's own lines have been given back: the request succeeds
  if and only if, for every product it names, the product exists and its stock plus the
  quantity the order held of it is at least the new quantity, and the customer the body
  names, if it names one, exists.
\<close>

theorem update_order_checks_released_stock:
  assumes "set_order set_iter"
    and "get_Order db oid = Some order"
    and "od_product_ids data = Some product_ids"
    and "od_order_id data = None"
    and "\<forall>l\<in>set (order_products order). get_Product db (line_product_id l) \<noteq> None"
  shows "fst (update_order set_iter stale_lines oid data db) = Success \<longleftrightarrow>
         (\<forall>k\<in>set product_ids. \<exists>p. get_Product db k = Some p \<and>
              int (count_list product_ids k) \<le> stock p + held (order_products order) k) \<and>
         customer_named data db"
proof (cases "\<forall>k\<in>set product_ids. \<exists>p. get_Product db k = Some p \<and>
              int (count_list product_ids k) \<le> stock p + held (order_products order) k")
  case True
  show ?thesis
  proof (cases "customer_named data db")
    case cn: True
    from update_order_replace_ok [OF assms True cn, of stale_lines] obtain db' where
      "update_order set_iter stale_lines oid data db = (Success, db')" by blast
    with True cn show ?thesis by simp
  next
    case cn: False
    from update_order_replace_unnamed [OF assms True cn, of stale_lines] True cn
    show ?thesis by simp
  qed
next
  case False
  from update_order_replace_short [OF assms False, of stale_lines] obtain e where
    "update_order set_iter stale_lines oid data db = (Failure e, db)" by blast
  with False show ?thesis by simp
qed

text \<open>
  Product 1 has no stock in the shop, and order 10 holds two of it. Replacing the order's
  products by two of product 1 succeeds, since 0 + 2 is at least 2, though the stock alone is
  less than 2; three of it are refused.
\<close>

theorem update_order_checks_released_stock_witness:
  "set_order remdups \<and>
   map_option stock (get_Product shop 1) = Some 0 \<and>
   held [\<lparr>line_product_id = 1, quantity = 2\<rparr>, \<lparr>line_product_id = 2, quantity = 1\<rparr>] 1 = 2 \<and>
   customer_named (replace_request [1, 1]) shop \<and>
   fst (update_order remdups True 10 (replace_request [1, 1]) shop) = Success \<and>
   map stock (Products (snd (update_order remdups True 10 (replace_request [1, 1]) shop))) =
     [0, 5, 3] \<and>
   fst (update_order remdups True 10 (replace_request [1, 1, 1]) shop) =
     Failure (InsufficientSupply 1)"
  using update_order_checks_released_stock
          [of remdups shop 10 "hd (Orders shop)" "replace_request [1, 1]" "[1, 1]" True]
        update_order_checks_released_stock
          [of remdups shop 10 "hd (Orders shop)" "replace_request [1, 1, 1]" "[1, 1, 1]" True]
  by (simp add: update_order_eval)

section \<open>Updating the fields of an order\<close>

lemma update_order_fields:
  assumes "od_product_ids data = None"
  shows "update_order set_iter stale_lines oid data db =
         (case get_Order db oid of
            None \<Rightarrow> (Failure OrderNotFound, db)
          | Some order \<Rightarrow>
              if customer_named data db \<and>
                 (case od_order_id data of
                    None \<Rightarrow> True
                  | Some i \<Rightarrow> i = oid \<or> (get_Order db i = None \<and> lines_of_order db oid = []))
              then (Success, db\<lparr>Orders := map (\<lambda>r. if order_id r = oid
                                                     then setattr_order data r else r)
                                              (Orders db)\<rparr>)
              else (Failure IntegrityError, db))"
  using assms by (auto simp: update_order_def update_refused_def split: option.splits)

lemma setattr_order_fields:
  "setattr_order data r =
     \<lparr>order_id = (case od_order_id data of None \<Rightarrow> order_id r | Some i \<Rightarrow> i),
      date = (case od_date data of None \<Rightarrow> date r | Some d \<Rightarrow> d),
      order_customer_id = (case od_customer_id data of None \<Rightarrow> order_customer_id r | Some c \<Rightarrow> c),
      order_products = order_products r\<rparr>"
  by (simp add: setattr_order_def split: option.splits)

text \<open>
  C9. An update whose body has no \<^verbatim>\<open>product_ids\<close> runs neither stock loop: whatever the
  outcome, the products, the customers and the accounts are the same afterwards and every
  order has the lines it had. When the order exists, the update succeeds if the store
  accepts the fields: the customer the body names, if any, exists, and a new \<^verbatim>\<open>order_id\<close>,
  if the body has one that differs from the order's, is not the key of another order and
  the order has no lines. It then changes exactly the rows with that id, setting the fields
  the body supplies and keeping the others and the lines. If the store does not accept the
  fields the update fails with \<open>IntegrityError\<close> and the database is as it was.
\<close>

theorem update_order_without_products:
  assumes "od_product_ids data = None"
  shows "Products (snd (update_order set_iter stale_lines oid data db)) = Products db \<and>
         Customers (snd (update_order set_iter stale_lines oid data db)) = Customers db \<and>
         Customer_Accounts (snd (update_order set_iter stale_lines oid data db)) =
           Customer_Accounts db \<and>
         map order_products (Orders (snd (update_order set_iter stale_lines oid data db))) =
           map order_products (Orders db) \<and>
         (get_Order db oid \<noteq> None \<and> customer_named data db \<and>
          (case od_order_id data of
             None \<Rightarrow> True
           | Some i \<Rightarrow> i = oid \<or> (get_Order db i = None \<and> lines_of_order db oid = [])) \<longrightarrow>
          update_order set_iter stale_lines oid data db =
            (Success,
             db\<lparr>Orders :=
                  map (\<lambda>r. if order_id r = oid
                            then \<lparr>order_id = (case od_order_id data of None \<Rightarrow> order_id r
                                              | Some i \<Rightarrow> i),
                                  date = (case od_date data of None \<Rightarrow> date r | Some d \<Rightarrow> d),
                                  order_customer_id = (case od_customer_id data of
                                                         None \<Rightarrow> order_customer_id r
                                                       | Some c \<Rightarrow> c),
                                  order_products = order_products r\<rparr>
                            else r) (Orders db)\<rparr>)) \<and>
         (get_Order db oid \<noteq> None \<and>
          \<not> (customer_named data db \<and>
             (case od_order_id data of
                None \<Rightarrow> True
              | Some i \<Rightarrow> i = oid \<or> (get_Order db i = None \<and> lines_of_order db oid = []))) \<longrightarrow>
          update_order set_iter stale_lines oid data db = (Failure IntegrityError, db))"
proof -
  note unf = update_order_fields [OF assms, of set_iter stale_lines oid db]
  have lines: "map order_products (map (\<lambda>r. if order_id r = oid then setattr_order data r else r)
                 (Orders db)) = map order_products (Orders db)"
    by (simp add: comp_def setattr_order_fields if_distrib cong: if_cong)
  have a: "Products (snd (update_order set_iter stale_lines oid data db)) = Products db"
    "Customers (snd (update_order set_iter stale_lines oid data db)) = Customers db"
    "Customer_Accounts (snd (update_order set_iter stale_lines oid data db)) =
       Customer_Accounts db"
    unfolding unf by (simp_all split: option.splits)
  have b: "map order_products (Orders (snd (update_order set_iter stale_lines oid data db))) =
           map order_products (Orders db)"
    unfolding unf using lines by (simp split: option.splits)
  have c: "get_Order db oid \<noteq> None \<and> customer_named data db \<and>
          (case od_order_id data of
             None \<Rightarrow> True
           | Some i \<Rightarrow> i = oid \<or> (get_Order db i = None \<and> lines_of_order db oid = [])) \<longrightarrow>
          update_order set_iter stale_lines oid data db =
            (Success,
             db\<lparr>Orders :=
                  map (\<lambda>r. if order_id r = oid
                            then \<lparr>order_id = (case od_order_id data of None \<Rightarrow> order_id r
                                              | Some i \<Rightarrow> i),
                                  date = (case od_date data of None \<Rightarrow> date r | Some d \<Rightarrow> d),
                                  order_customer_id = (case od_customer_id data of
                                                         None \<Rightarrow> order_customer_id r
                                                       | Some c \<Rightarrow> c),
                                  order_products = order_products r\<rparr>
                            else r) (Orders db)\<rparr>)"
    unfolding unf by (auto simp: setattr_order_fields split: option.splits)
  have d: "get_Order db oid \<noteq> None \<and>
          \<not> (customer_named data db \<and>
             (case od_order_id data of
                None \<Rightarrow> True
              | Some i \<Rightarrow> i = oid \<or> (get_Order db i = None \<and> lines_of_order db oid = []))) \<longrightarrow>
          update_order set_iter stale_lines oid data db = (Failure IntegrityError, db)"
    unfolding unf by (auto split: option.splits)
  from a b c d show ?thesis by blast
qed

text \<open>
  Moving order 10 of the shop to another date: the stocks stay 0, 4, 3 and the order keeps
  its two lines. Moving it to customer 8, who does not exist, or giving it the key 20 while
  it has lines, is refused by the store, and the shop is as it was.
\<close>

theorem update_order_without_products_witness:
  "od_product_ids \<lparr>od_order_id = None, od_customer_id = None, od_date = Some 738100,
                   od_product_ids = None\<rparr> = None \<and>
   update_order remdups True 10
     \<lparr>od_order_id = None, od_customer_id = None, od_date = Some 738100, od_product_ids = None\<rparr>
     shop =
   (Success,
    shop\<lparr>Orders := [\<lparr>order_id = 10, date = 738100, order_customer_id = 7,
                       order_products = [\<lparr>line_product_id = 1, quantity = 2\<rparr>,
                                         \<lparr>line_product_id = 2, quantity = 1\<rparr>]\<rparr>]\<rparr>) \<and>
   map stock (Products (snd (update_order remdups True 10
     \<lparr>od_order_id = None, od_customer_id = None, od_date = Some 738100, od_product_ids = None\<rparr>
     shop))) = [0, 4, 3] \<and>
   update_order remdups True 10
     \<lparr>od_order_id = None, od_customer_id = Some 8, od_date = None, od_product_ids = None\<rparr>
     shop = (Failure IntegrityError, shop) \<and>
   update_order remdups True 10
     \<lparr>od_order_id = Some 20, od_customer_id = None, od_date = None, od_product_ids = None\<rparr>
     shop = (Failure IntegrityError, shop) \<and>
   update_order remdups True 10
     \<lparr>od_order_id = None, od_customer_id = Some 9, od_date = None, od_product_ids = None\<rparr>
     shop =
   (Success,
    shop\<lparr>Orders := [\<lparr>order_id = 10, date = 738000, order_customer_id = 9,
                       order_products = [\<lparr>line_product_id = 1, quantity = 2\<rparr>,
                                         \<lparr>line_product_id = 2, quantity = 1\<rparr>]\<rparr>]\<rparr>)"
  using update_order_without_products
          [of "\<lparr>od_order_id = None, od_customer_id = None, od_date = Some 738100,
                od_product_ids = None\<rparr>" remdups True 10 shop]
        update_order_without_products
          [of "\<lparr>od_order_id = None, od_customer_id = Some 8, od_date = None,
                od_product_ids = None\<rparr>" remdups True 10 shop]
        update_order_without_products
          [of "\<lparr>od_order_id = Some 20, od_customer_id = None, od_date = None,
                od_product_ids = None\<rparr>" remdups True 10 shop]
        update_order_without_products
          [of "\<lparr>od_order_id = None, od_customer_id = Some 9, od_date = None,
                od_product_ids = None\<rparr>" remdups True 10 shop]
  by (simp add: update_order_eval)

section \<open>One account per customer, one owner per username\<close>

lemma get_CustomerAccount_None:
  "get_CustomerAccount s i = None \<longleftrightarrow> (\<forall>a\<in>set (Customer_Accounts s). account_customer_id a \<noteq> i)"
  by (auto simp: get_CustomerAccount_def find_None_iff)

lemmas add_customer_account_eval = add_customer_account_def get_Customer_def
  get_CustomerAccount_def shop_def

text \<open>
  C7. Creating an account fails with \<open>CustomerMustExist\<close> (404) when the customer does not
  exist, else with \<open>OnlyOneAccount\<close> (400) when the customer has an account, else with
  \<open>UsernamesMustBeUnique\<close> (400) when any account, of whatever customer, has the username;
  only then is the row added. Every failure leaves the database as it was, so no account row
  is created, and a table with one account per customer and one owner per username keeps
  both properties.
\<close>

theorem add_customer_account_guards:
  "add_customer_account data db =
     (if get_Customer db (account_customer_id data) = None
      then (Failure CustomerMustExist, db)
      else if get_CustomerAccount db (account_customer_id data) \<noteq> None
      then (Failure OnlyOneAccount, db)
      else if \<exists>a\<in>set (Customer_Accounts db). username a = username data
      then (Failure UsernamesMustBeUnique, db)
      else (Success, db\<lparr>Customer_Accounts := Customer_Accounts db @ [data]\<rparr>)) \<and>
   status_code CustomerMustExist = 404 \<and> status_code OnlyOneAccount = 400 \<and>
   status_code UsernamesMustBeUnique = 400 \<and>
   (\<forall>e db'. add_customer_account data db = (Failure e, db') \<longrightarrow> db' = db) \<and>
   (distinct (map account_customer_id (Customer_Accounts db)) \<and>
    distinct (map username (Customer_Accounts db)) \<longrightarrow>
    distinct (map account_customer_id
                (Customer_Accounts (snd (add_customer_account data db)))) \<and>
    distinct (map username (Customer_Accounts (snd (add_customer_account data db)))))"
proof -
  have eq: "add_customer_account data db =
     (if get_Customer db (account_customer_id data) = None
      then (Failure CustomerMustExist, db)
      else if get_CustomerAccount db (account_customer_id data) \<noteq> None
      then (Failure OnlyOneAccount, db)
      else if \<exists>a\<in>set (Customer_Accounts db). username a = username data
      then (Failure UsernamesMustBeUnique, db)
      else (Success, db\<lparr>Customer_Accounts := Customer_Accounts db @ [data]\<rparr>))"
    by (auto simp: add_customer_account_def Let_def filter_empty_conv split: option.splits)
  have fail: "\<forall>e db'. add_customer_account data db = (Failure e, db') \<longrightarrow> db' = db"
    unfolding eq by (simp split: if_splits)
  have inv: "distinct (map account_customer_id (Customer_Accounts db)) \<and>
    distinct (map username (Customer_Accounts db)) \<longrightarrow>
    distinct (map account_customer_id
                (Customer_Accounts (snd (add_customer_account data db)))) \<and>
    distinct (map username (Customer_Accounts (snd (add_customer_account data db))))"
    unfolding eq by (auto simp: get_CustomerAccount_None)
  from eq fail inv show ?thesis by simp
qed

text \<open>
  In the shop customer 7 owns the account \<open>ada\<close> and customer 9 has none: an account for
  the unknown customer 8 is refused, a second one for 7 is refused, \<open>ada\<close> for 9 is refused,
  \<open>bob\<close> for 9 is added.
\<close>

theorem add_customer_account_guards_witness:
  "add_customer_account \<lparr>username = ''bob'', password = ''x'', account_customer_id = 8\<rparr> shop =
     (Failure CustomerMustExist, shop) \<and>
   add_customer_account \<lparr>username = ''bob'', password = ''x'', account_customer_id = 7\<rparr> shop =
     (Failure OnlyOneAccount, shop) \<and>
   add_customer_account \<lparr>username = ''ada'', password = ''x'', account_customer_id = 9\<rparr> shop =
     (Failure UsernamesMustBeUnique, shop) \<and>
   add_customer_account \<lparr>username = ''bob'', password = ''x'', account_customer_id = 9\<rparr> shop =
     (Success, shop\<lparr>Customer_Accounts :=
                      [\<lparr>username = ''ada'', password = ''pw'', account_customer_id = 7\<rparr>,
                       \<lparr>username = ''bob'', password = ''x'', account_customer_id = 9\<rparr>]\<rparr>)"
  using add_customer_account_guards
          [of "\<lparr>username = ''bob'', password = ''x'', account_customer_id = 8\<rparr>" shop]
        add_customer_account_guards
          [of "\<lparr>username = ''bob'', password = ''x'', account_customer_id = 7\<rparr>" shop]
        add_customer_account_guards
          [of "\<lparr>username = ''ada'', password = ''x'', account_customer_id = 9\<rparr>" shop]
        add_customer_account_guards
          [of "\<lparr>username = ''bob'', password = ''x'', account_customer_id = 9\<rparr>" shop]
  by (simp add: add_customer_account_eval)

section \<open>Deleting a product\<close>

lemma find_filter_other:
  "j \<noteq> i \<Longrightarrow> find (\<lambda>x. key x = j) (filter (\<lambda>x. key x \<noteq> i) xs) = find (\<lambda>x. key x = j) xs"
  by (induction xs) auto

lemma lines_of_product_empty:
  "lines_of_product db pid = [] \<longleftrightarrow>
   \<not> (\<exists>r\<in>set (Orders db). \<exists>l\<in>set (order_products r). line_product_id l = pid)"
  by (auto simp: lines_of_product_def filter_empty_conv)

lemmas delete_product_eval = delete_product_def lines_of_product_def get_Product_def shop_def

text \<open>
  C8. Deleting an existing product fails with \<open>ProductHasOrders\<close> (400) if and only if a
  line of some order names the product, and then nothing changes; otherwise it succeeds and
  removes the product's row. In both cases the customers, the accounts, the orders and
  every other product are as before.
\<close>

theorem delete_product_guard:
  assumes "get_Product db pid = Some product"
  shows "(fst (delete_product pid db) = Failure ProductHasOrders \<longleftrightarrow>
            (\<exists>r\<in>set (Orders db). \<exists>l\<in>set (order_products r). line_product_id l = pid)) \<and>
         ((\<exists>r\<in>set (Orders db). \<exists>l\<in>set (order_products r). line_product_id l = pid) \<longrightarrow>
            delete_product pid db = (Failure ProductHasOrders, db)) \<and>
         (\<not> (\<exists>r\<in>set (Orders db). \<exists>l\<in>set (order_products r). line_product_id l = pid) \<longrightarrow>
            delete_product pid db =
              (Success, db\<lparr>Products := filter (\<lambda>p. product_id p \<noteq> pid) (Products db)\<rparr>) \<and>
            get_Product (snd (delete_product pid db)) pid = None) \<and>
         status_code ProductHasOrders = 400 \<and>
         Customers (snd (delete_product pid db)) = Customers db \<and>
         Customer_Accounts (snd (delete_product pid db)) = Customer_Accounts db \<and>
         Orders (snd (delete_product pid db)) = Orders db \<and>
         (\<forall>j. j \<noteq> pid \<longrightarrow> get_Product (snd (delete_product pid db)) j = get_Product db j)"
proof -
  let ?used = "\<exists>r\<in>set (Orders db). \<exists>l\<in>set (order_products r). line_product_id l = pid"
  have eq: "delete_product pid db =
            (if ?used then (Failure ProductHasOrders, db)
             else (Success, db\<lparr>Products := filter (\<lambda>p. product_id p \<noteq> pid) (Products db)\<rparr>))"
    using assms lines_of_product_empty [of db pid]
    by (simp add: delete_product_def Let_def)
  have gone: "get_Product (db\<lparr>Products := filter (\<lambda>p. product_id p \<noteq> pid) (Products db)\<rparr>) pid
              = None"
    by (simp add: get_Product_def find_None_iff)
  have other: "\<forall>j. j \<noteq> pid \<longrightarrow> get_Product (snd (delete_product pid db)) j = get_Product db j"
    unfolding eq by (simp add: get_Product_def find_filter_other)
  have frame: "Customers (snd (delete_product pid db)) = Customers db"
    "Customer_Accounts (snd (delete_product pid db)) = Customer_Accounts db"
    "Orders (snd (delete_product pid db)) = Orders db"
    unfolding eq by simp_all
  have a: "fst (delete_product pid db) = Failure ProductHasOrders \<longleftrightarrow> ?used"
    unfolding eq by simp
  have b: "?used \<longrightarrow> delete_product pid db = (Failure ProductHasOrders, db)"
    unfolding eq by simp
  have c: "\<not> ?used \<longrightarrow>
            delete_product pid db =
              (Success, db\<lparr>Products := filter (\<lambda>p. product_id p \<noteq> pid) (Products db)\<rparr>) \<and>
            get_Product (snd (delete_product pid db)) pid = None"
    unfolding eq using gone by simp
  have d: "status_code ProductHasOrders = 400" by simp
  from a b c d frame other show ?thesis by blast
qed

text \<open>
  In the shop order 10 has a line for product 1 and none for product 3: product 1 cannot be
  deleted, product 3 can.
\<close>

theorem delete_product_guard_witness:
  "map_option product_name (get_Product shop 1) = Some ''A'' \<and>
   delete_product 1 shop = (Failure ProductHasOrders, shop) \<and>
   map_option product_name (get_Product shop 3) = Some ''C'' \<and>
   fst (delete_product 3 shop) = Success \<and>
   map product_id (Products (snd (delete_product 3 shop))) = [1, 2] \<and>
   Orders (snd (delete_product 3 shop)) = Orders shop"
  using delete_product_guard [of shop 1 "hd (Products shop)"]
        delete_product_guard [of shop 3 "last (Products shop)"]
  by (simp add: delete_product_eval)

section \<open>Stock is never negative\<close>

lemma get_Product_in: "get_Product s i = Some p \<Longrightarrow> p \<in> set (Products s)"
  by (auto simp: get_Product_def find_Some_iff)

lemma get_Order_in: "get_Order s i = Some r \<Longrightarrow> r \<in> set (Orders s)"
  by (auto simp: get_Order_def find_Some_iff)

lemma stock_nonneg_get: "stock_nonneg s \<Longrightarrow> get_Product s i = Some p \<Longrightarrow> 0 \<le> stock p"
  using get_Product_in [of s i p] by (auto simp: stock_nonneg_def list_all_iff)

lemma lines_nonneg_get:
  "lines_nonneg s \<Longrightarrow> get_Order s i = Some r \<Longrightarrow> \<forall>l\<in>set (order_products r). 0 \<le> quantity l"
  using get_Order_in [of s i r] by (auto simp: lines_nonneg_def list_all_iff)

lemma set_stock_nonneg:
  "stock_nonneg s \<Longrightarrow> 0 \<le> v \<Longrightarrow> stock_nonneg (set_stock i v s)"
  by (auto simp: stock_nonneg_def set_stock_def list_all_iff)

lemma set_stock_lines [simp]: "lines_nonneg (set_stock i v s) = lines_nonneg s"
  by (simp add: lines_nonneg_def)

lemma append_line_stock [simp]: "stock_nonneg (append_line oid l s) = stock_nonneg s"
  by (simp add: stock_nonneg_def)

lemma append_line_lines:
  "lines_nonneg s \<Longrightarrow> 0 \<le> quantity l \<Longrightarrow> lines_nonneg (append_line oid l s)"
  by (auto simp: lines_nonneg_def append_line_def list_all_iff)

lemma delete_lines_stock [simp]: "stock_nonneg (delete_lines oid s) = stock_nonneg s"
  by (simp add: stock_nonneg_def)

lemma delete_lines_lines: "lines_nonneg s \<Longrightarrow> lines_nonneg (delete_lines oid s)"
  by (auto simp: lines_nonneg_def delete_lines_def list_all_iff)

lemma Counter_getitem_nonneg: "0 \<le> Counter_getitem (Counter xs) k"
  by (simp add: Counter_getitem_count)

lemma reserve_nonneg:
  "stock_nonneg s \<Longrightarrow> lines_nonneg s \<Longrightarrow> \<forall>k. 0 \<le> Counter_getitem q k \<Longrightarrow>
   reserve oid q ks s = Inr s' \<Longrightarrow> stock_nonneg s' \<and> lines_nonneg s'"
proof (induction ks arbitrary: s)
  case Nil
  then show ?case by simp
next
  case (Cons k ks)
  from Cons.prems(4) obtain product where
    p: "get_Product s k = Some product" "\<not> stock product < Counter_getitem q k"
    and r: "reserve oid q ks
              (append_line oid \<lparr>line_product_id = k, quantity = Counter_getitem q k\<rparr>
                 (set_stock k (stock product - Counter_getitem q k) s)) = Inr s'"
    by (auto simp: Let_def split: option.splits if_splits)
  let ?s1 = "append_line oid \<lparr>line_product_id = k, quantity = Counter_getitem q k\<rparr>
               (set_stock k (stock product - Counter_getitem q k) s)"
  from p(2) have "0 \<le> stock product - Counter_getitem q k" by simp
  with Cons.prems(1) have a: "stock_nonneg ?s1" by (simp add: set_stock_nonneg)
  from Cons.prems(2,3) have b: "lines_nonneg ?s1" by (simp add: append_line_lines)
  from Cons.IH [OF a b Cons.prems(3) r] show ?case .
qed

lemma release_nonneg:
  "stock_nonneg s \<Longrightarrow> \<forall>l\<in>set ls. 0 \<le> quantity l \<Longrightarrow> release ls s = Inr s' \<Longrightarrow>
   stock_nonneg s'"
proof (induction ls arbitrary: s)
  case Nil
  then show ?case by simp
next
  case (Cons l ls)
  from Cons.prems(3) obtain product where
    p: "get_Product s (line_product_id l) = Some product"
    and r: "release ls (set_stock (line_product_id l) (stock product + quantity l) s) = Inr s'"
    by (auto split: option.splits)
  from stock_nonneg_get [OF Cons.prems(1) p] Cons.prems(2)
  have "0 \<le> stock product + quantity l" by simp
  from set_stock_nonneg [OF Cons.prems(1) this]
  have a: "stock_nonneg (set_stock (line_product_id l) (stock product + quantity l) s)" .
  from Cons.prems(2) have b: "\<forall>l\<in>set ls. 0 \<le> quantity l" by simp
  from Cons.IH [OF a b r] show ?case .
qed

lemma release_lines: "release ls s = Inr s' \<Longrightarrow> lines_nonneg s' = lines_nonneg s"
  using release_frame [of ls s s'] by (simp add: lines_nonneg_def)


lemma setattr_order_lines [simp]: "order_products (setattr_order data r) = order_products r"
  by (simp add: setattr_order_def split: option.splits)

lemma add_order_nonneg:
  assumes "stock_nonneg s" and "lines_nonneg s"
  shows "stock_nonneg (snd (add_order set_iter auto_id data s)) \<and>
         lines_nonneg (snd (add_order set_iter auto_id data s))"
proof (cases "add_order set_iter auto_id data s")
  case (Pair r s')
  show ?thesis
  proof (cases r)
    case Success
    with Pair have "add_order set_iter auto_id data s = (Success, s')" by simp
    from add_order_Success [OF this] obtain cid d product_ids oid where
      res: "reserve oid (Counter product_ids) (set_iter product_ids)
             (s\<lparr>Orders := Orders s @
                [\<lparr>order_id = oid, date = d, order_customer_id = cid, order_products = []\<rparr>]\<rparr>) = Inr s'"
      by blast
    have "stock_nonneg s' \<and> lines_nonneg s'"
    proof (rule reserve_nonneg [OF _ _ _ res])
      show "stock_nonneg (s\<lparr>Orders := Orders s @
                [\<lparr>order_id = oid, date = d, order_customer_id = cid, order_products = []\<rparr>]\<rparr>)"
        using assms(1) by (simp add: stock_nonneg_def)
      show "lines_nonneg (s\<lparr>Orders := Orders s @
                [\<lparr>order_id = oid, date = d, order_customer_id = cid, order_products = []\<rparr>]\<rparr>)"
        using assms(2) by (simp add: lines_nonneg_def)
      show "\<forall>k. 0 \<le> Counter_getitem (Counter product_ids) k"
        by (simp add: Counter_getitem_nonneg)
    qed
    with Pair show ?thesis by simp
  next
    case (Failure e)
    with Pair add_order_Failure [of set_iter auto_id data s e s'] assms show ?thesis by simp
  qed
qed

lemma update_order_Failure:
  "update_order set_iter stale_lines oid data s = (Failure e, s') \<Longrightarrow> s' = s"
  by (auto simp: update_order_def split: option.splits sum.splits if_splits)

lemma update_order_Success:
  assumes "update_order set_iter stale_lines oid data s = (Success, s')"
  shows "\<exists>order s2. get_Order s oid = Some order \<and>
           (case od_product_ids data of
              None \<Rightarrow> s2 = s
            | Some product_ids \<Rightarrow>
                (\<exists>s1. release (order_products order) s = Inr s1 \<and>
                      reserve oid (Counter product_ids) (set_iter product_ids)
                        (delete_lines oid s1) = Inr s2)) \<and>
           s' = s2\<lparr>Orders := map (\<lambda>r. if order_id r = oid then setattr_order data r else r)
                               (Orders s2)\<rparr>"
  using assms
  by (auto simp: update_order_def split: option.splits sum.splits if_splits)

lemma setattr_rows_nonneg:
  "stock_nonneg s2 \<and> lines_nonneg s2 \<Longrightarrow>
   stock_nonneg (s2\<lparr>Orders := map (\<lambda>r. if order_id r = oid then setattr_order data r else r)
                                 (Orders s2)\<rparr>) \<and>
   lines_nonneg (s2\<lparr>Orders := map (\<lambda>r. if order_id r = oid then setattr_order data r else r)
                                 (Orders s2)\<rparr>)"
  by (auto simp: stock_nonneg_def lines_nonneg_def list_all_iff)

lemma update_order_nonneg:
  assumes "stock_nonneg s" and "lines_nonneg s"
  shows "stock_nonneg (snd (update_order set_iter stale_lines oid data s)) \<and>
         lines_nonneg (snd (update_order set_iter stale_lines oid data s))"
proof (cases "update_order set_iter stale_lines oid data s")
  case (Pair r s')
  show ?thesis
  proof (cases r)
    case Success
    with Pair have "update_order set_iter stale_lines oid data s = (Success, s')" by simp
    from update_order_Success [OF this] obtain order s2 where
      ord: "get_Order s oid = Some order"
      and mid: "case od_product_ids data of
              None \<Rightarrow> s2 = s
            | Some product_ids \<Rightarrow>
                (\<exists>s1. release (order_products order) s = Inr s1 \<and>
                      reserve oid (Counter product_ids) (set_iter product_ids)
                        (delete_lines oid s1) = Inr s2)"
      and fin: "s' = s2\<lparr>Orders := map (\<lambda>r. if order_id r = oid then setattr_order data r else r)
                               (Orders s2)\<rparr>"
      by blast
    have "stock_nonneg s2 \<and> lines_nonneg s2"
    proof (cases "od_product_ids data")
      case None
      with mid assms show ?thesis by simp
    next
      case (Some product_ids)
      with mid obtain s1 where rel: "release (order_products order) s = Inr s1"
        and res: "reserve oid (Counter product_ids) (set_iter product_ids)
                    (delete_lines oid s1) = Inr s2"
        by auto
      from release_nonneg [OF assms(1) lines_nonneg_get [OF assms(2) ord] rel]
      have a: "stock_nonneg (delete_lines oid s1)" by simp
      from release_lines [OF rel] assms(2) have b: "lines_nonneg (delete_lines oid s1)"
        by (simp add: delete_lines_lines)
      show ?thesis
        by (rule reserve_nonneg [OF a b _ res]) (simp add: Counter_getitem_nonneg)
    qed
    from setattr_rows_nonneg [OF this, of oid data] fin Pair show ?thesis by simp
  next
    case (Failure e)
    with Pair update_order_Failure [of set_iter stale_lines oid data s e s'] assms
    show ?thesis by simp
  qed
qed

lemma delete_order_nonneg:
  assumes "stock_nonneg s" and "lines_nonneg s"
  shows "stock_nonneg (snd (delete_order oid s)) \<and> lines_nonneg (snd (delete_order oid s))"
proof (cases "get_Order s oid")
  case None
  with assms show ?thesis by (simp add: delete_order_def)
next
  case (Some order)
  show ?thesis
  proof (cases "release (order_products order) s")
    case (Inl e)
    with Some assms show ?thesis by (simp add: delete_order_def)
  next
    case (Inr s1)
    from release_nonneg [OF assms(1) lines_nonneg_get [OF assms(2) Some] Inr]
    have a: "stock_nonneg s1" .
    from release_lines [OF Inr] assms(2) have b: "lines_nonneg s1" by simp
    from a b Some Inr show ?thesis
      by (auto simp: delete_order_def stock_nonneg_def lines_nonneg_def list_all_iff)
  qed
qed

lemma update_product_nonneg:
  assumes "stock_nonneg s" and "lines_nonneg s"
  shows "stock_nonneg (snd (update_product pid restock pdata s)) \<and>
         lines_nonneg (snd (update_product pid restock pdata s))"
proof (cases restock)
  case (Some n)
  show ?thesis
  proof (cases "get_Product s pid")
    case None
    with Some assms show ?thesis by (simp add: update_product_def)
  next
    case (Some product)
    from stock_nonneg_get [OF assms(1) Some] have "0 < n \<Longrightarrow> 0 \<le> stock product + n" by simp
    with \<open>restock = Some n\<close> Some assms show ?thesis
      by (auto simp: update_product_def set_stock_nonneg)
  qed
next
  case None
  have set: "\<And>p. product_data_valid pdata \<Longrightarrow> 0 \<le> stock p \<Longrightarrow>
               0 \<le> stock (setattr_product pdata p)"
    by (auto simp: product_data_valid_def setattr_product_def split: option.splits)
  have "product_data_valid pdata \<Longrightarrow>
        stock_nonneg (s\<lparr>Products := map (\<lambda>p. if product_id p = pid
                                              then setattr_product pdata p else p)
                                       (Products s)\<rparr>) \<and>
        lines_nonneg (s\<lparr>Products := map (\<lambda>p. if product_id p = pid
                                              then setattr_product pdata p else p)
                                       (Products s)\<rparr>)"
    using assms set by (auto simp: stock_nonneg_def lines_nonneg_def list_all_iff)
  with None assms show ?thesis
    by (auto simp: update_product_def split: option.splits)
qed

lemma add_product_nonneg:
  assumes "stock_nonneg s" and "lines_nonneg s"
  shows "stock_nonneg (snd (add_product auto_id pdata s)) \<and>
         lines_nonneg (snd (add_product auto_id pdata s))"
  using assms
  by (auto simp: add_product_def product_data_valid_def stock_nonneg_def lines_nonneg_def
        Let_def split: option.splits)

lemma delete_product_nonneg:
  assumes "stock_nonneg s" and "lines_nonneg s"
  shows "stock_nonneg (snd (delete_product pid s)) \<and>
         lines_nonneg (snd (delete_product pid s))"
  using assms
  by (auto simp: delete_product_def stock_nonneg_def lines_nonneg_def Let_def list_all_iff
        split: option.splits)

lemma add_customer_nonneg:
  assumes "stock_nonneg s" and "lines_nonneg s"
  shows "stock_nonneg (snd (add_customer auto_id given_id n e p s)) \<and>
         lines_nonneg (snd (add_customer auto_id given_id n e p s))"
  using assms
  by (auto simp: add_customer_def stock_nonneg_def lines_nonneg_def Let_def)

lemma add_customer_account_nonneg:
  assumes "stock_nonneg s" and "lines_nonneg s"
  shows "stock_nonneg (snd (add_customer_account account s)) \<and>
         lines_nonneg (snd (add_customer_account account s))"
  using assms
  by (auto simp: add_customer_account_def stock_nonneg_def lines_nonneg_def Let_def
        split: option.splits)

lemma reachable_nonneg: "reachable set_iter s \<Longrightarrow> stock_nonneg s \<and> lines_nonneg s"
proof (induction rule: reachable.induct)
  case r_empty
  show ?case by (simp add: empty_db_def stock_nonneg_def lines_nonneg_def)
next
  case (r_add_customer s auto_id given_id n e p)
  then show ?case using add_customer_nonneg by blast
next
  case (r_add_customer_account s account)
  then show ?case using add_customer_account_nonneg by blast
next
  case (r_add_product s auto_id pdata)
  then show ?case using add_product_nonneg by blast
next
  case (r_update_product s pid restock pdata)
  then show ?case using update_product_nonneg by blast
next
  case (r_delete_product s pid)
  then show ?case using delete_product_nonneg by blast
next
  case (r_add_order s auto_id data)
  then show ?case using add_order_nonneg by blast
next
  case (r_update_order s stale_lines oid data)
  then show ?case using update_order_nonneg by blast
next
  case (r_delete_order s oid)
  then show ?case using delete_order_nonneg by blast
qed


text \<open>
  C4. In every database the routes can reach from the empty one, if no product has a
  negative stock then none has after an order is created, after the products of an order
  are replaced or its fields updated, after an order is deleted, and after a product is
  restocked or updated. (The loop that lowers a stock does so only past its check
  \<^verbatim>\<open>product.stock < quantity\<close>, and what the other loop adds is a quantity that a
  creation or a replacement has put in a line, which is a count.)
\<close>

theorem stock_never_negative:
  assumes "reachable set_iter db" and "stock_nonneg db"
  shows "stock_nonneg (snd (add_order set_iter auto_id data db)) \<and>
         stock_nonneg (snd (update_order set_iter stale_lines oid data' db)) \<and>
         stock_nonneg (snd (delete_order oid' db)) \<and>
         stock_nonneg (snd (update_product pid restock pdata db))"
proof -
  from reachable_nonneg [OF assms(1)] have l: "lines_nonneg db" by simp
  from add_order_nonneg [OF assms(2) l] update_order_nonneg [OF assms(2) l]
    delete_order_nonneg [OF assms(2) l] update_product_nonneg [OF assms(2) l]
  show ?thesis by blast
qed

text \<open>
  The shop is reachable: two customers, an account, three products with the stocks 2, 5, 3
  and an order of customer 7 for two of product 1 and one of product 2.
\<close>

lemma shop_reachable: "reachable remdups shop"
proof -
  let ?s1 = "snd (add_customer 7 None ''Ada'' ''ada@example.org'' ''555'' empty_db)"
  let ?s2 = "snd (add_customer 9 None ''Bob'' ''bob@example.org'' ''556'' ?s1)"
  let ?s3 = "snd (add_customer_account
                    \<lparr>username = ''ada'', password = ''pw'', account_customer_id = 7\<rparr> ?s2)"
  let ?s4 = "snd (add_product 1 \<lparr>pd_product_id = None, pd_name = Some ''A'', pd_price = Some 1,
                                 pd_stock = Some 2\<rparr> ?s3)"
  let ?s5 = "snd (add_product 2 \<lparr>pd_product_id = None, pd_name = Some ''B'', pd_price = Some 2,
                                 pd_stock = Some 5\<rparr> ?s4)"
  let ?s6 = "snd (add_product 3 \<lparr>pd_product_id = None, pd_name = Some ''C'', pd_price = Some 3,
                                 pd_stock = Some 3\<rparr> ?s5)"
  let ?s7 = "snd (add_order remdups 10
                    \<lparr>od_order_id = None, od_customer_id = Some 7, od_date = Some 738000,
                     od_product_ids = Some [1, 1, 2]\<rparr> ?s6)"
  have s2: "?s2 = shop\<lparr>Customer_Accounts := [], Products := [], Orders := []\<rparr>"
    by (simp add: add_customer_def get_Customer_def empty_db_def shop_def)
  have s3: "?s3 = shop\<lparr>Products := [], Orders := []\<rparr>"
    by (simp only: s2)
       (simp add: add_customer_account_def get_Customer_def get_CustomerAccount_def shop_def)
  have s6: "?s6 = shop\<lparr>Products := [\<lparr>product_id = 1, product_name = ''A'', price = 1, stock = 2\<rparr>,
                                    \<lparr>product_id = 2, product_name = ''B'', price = 2, stock = 5\<rparr>,
                                    \<lparr>product_id = 3, product_name = ''C'', price = 3, stock = 3\<rparr>],
                       Orders := []\<rparr>"
    by (simp only: s3)
       (simp add: add_product_def product_data_valid_def get_Product_def shop_def)
  have s7: "?s7 = shop"
    by (simp only: s6)
       (simp add: add_order_def get_Customer_def get_Order_def get_Product_def Counter_def
          Counter_add_def Counter_getitem_def set_stock_def append_line_def shop_def)
  have "reachable remdups ?s7" by (intro reachable.intros)
  with s7 show ?thesis by simp
qed

theorem stock_never_negative_witness:
  "reachable remdups shop \<and> stock_nonneg shop \<and>
   stock_nonneg (snd (add_order remdups 11 (request 7 [2, 3, 2]) shop)) \<and>
   stock_nonneg (snd (update_order remdups True 10 (replace_request [1, 3, 3, 3]) shop)) \<and>
   stock_nonneg (snd (delete_order 10 shop)) \<and>
   stock_nonneg (snd (update_product 1 (Some 5)
                        \<lparr>pd_product_id = None, pd_name = None, pd_price = None, pd_stock = None\<rparr>
                        shop)) \<and>
   map stock (Products (snd (update_product 1 (Some 5)
                        \<lparr>pd_product_id = None, pd_name = None, pd_price = None, pd_stock = None\<rparr>
                        shop))) = [5, 4, 3]"
proof -
  have r: "reachable remdups shop" by (rule shop_reachable)
  have n: "stock_nonneg shop" by (simp add: stock_nonneg_def shop_def)
  note t = stock_never_negative [OF r n, where auto_id = 11 and data = "request 7 [2, 3, 2]"
      and stale_lines = True and oid = 10 and data' = "replace_request [1, 3, 3, 3]"
      and oid' = 10 and pid = 1
      and restock = "Some 5"
      and pdata = "\<lparr>pd_product_id = None, pd_name = None, pd_price = None, pd_stock = None\<rparr>"]
  have v: "map stock (Products (snd (update_product 1 (Some 5)
                        \<lparr>pd_product_id = None, pd_name = None, pd_price = None, pd_stock = None\<rparr>
                        shop))) = [5, 4, 3]"
    by (simp add: update_product_def get_Product_def set_stock_def shop_def)
  from r n t v show ?thesis by blast
qed

end
